theory Spec2Isabelle
  imports Complex_Main
begin

unbundle bit_operations_syntax

section \<open>Numbers\<close>

text \<open>
  The animation engine computes with JavaScript numbers. They are modelled as
  mathematical reals (counters and sizes as naturals), so that rounding is
  outside the model. The position and the velocity of a particle are numbers
  that can overflow (see below): there \<open>Infinity\<close>, \<open>-Infinity\<close> and
  \<open>NaN\<close> are values of the model.

  \<open>a % b\<close> is the remainder of the division truncated towards zero (its sign
  is the sign of the dividend); \<open>Math.round\<close> rounds halves upwards.
\<close>

definition js_trunc :: "real \<Rightarrow> int" where
  "js_trunc a = (if 0 \<le> a then \<lfloor>a\<rfloor> else \<lceil>a\<rceil>)"

definition js_rem :: "real \<Rightarrow> real \<Rightarrow> real" where
  "js_rem a b = a - b * of_int (js_trunc (a / b))"

definition Math_round :: "real \<Rightarrow> int" where
  "Math_round a = \<lfloor>a + 1 / 2\<rfloor>"

subsection \<open>Numbers that can overflow\<close>

text \<open>
  A number is a finite value, one of the two infinities, or \<open>NaN\<close>. The
  result of an operation on finite values is exact unless it is beyond
  \<open>Number.MAX_VALUE = (2 - 2^-52) * 2^1023\<close>, where it overflows to
  an infinity. An infinity times 0 and the sum of the two infinities are
  \<open>NaN\<close>; every comparison with \<open>NaN\<close> is false; \<open>Math.max\<close> and
  \<open>Math.min\<close> return \<open>NaN\<close> when an argument is \<open>NaN\<close>.
\<close>

datatype jsnum = Num real | Infinity | NegInfinity | NaN

definition MAX_VALUE :: real where
  "MAX_VALUE = (2 - 1 / 2 ^ 52) * 2 ^ 1023"

definition overflow :: "real \<Rightarrow> jsnum" where
  "overflow v =
     (if MAX_VALUE < v then Infinity
      else if v < - MAX_VALUE then NegInfinity
      else Num v)"

fun js_positive :: "jsnum \<Rightarrow> bool" where
  "js_positive (Num a) = (0 < a)"
| "js_positive Infinity = True"
| "js_positive NegInfinity = False"
| "js_positive NaN = False"

fun js_add :: "jsnum \<Rightarrow> jsnum \<Rightarrow> jsnum" where
  "js_add (Num a) (Num b) = overflow (a + b)"
| "js_add NaN b = NaN"
| "js_add a NaN = NaN"
| "js_add Infinity NegInfinity = NaN"
| "js_add NegInfinity Infinity = NaN"
| "js_add Infinity b = Infinity"
| "js_add a Infinity = Infinity"
| "js_add a b = NegInfinity"

fun js_mul :: "jsnum \<Rightarrow> jsnum \<Rightarrow> jsnum" where
  "js_mul (Num a) (Num b) = overflow (a * b)"
| "js_mul NaN b = NaN"
| "js_mul a NaN = NaN"
| "js_mul a b =
     (if a = Num 0 \<or> b = Num 0 then NaN
      else if js_positive a = js_positive b then Infinity
      else NegInfinity)"

fun js_le :: "jsnum \<Rightarrow> jsnum \<Rightarrow> bool" where
  "js_le NaN b = False"
| "js_le a NaN = False"
| "js_le (Num a) (Num b) = (a \<le> b)"
| "js_le NegInfinity b = True"
| "js_le a Infinity = True"
| "js_le a b = False"

definition Math_max :: "jsnum \<Rightarrow> jsnum \<Rightarrow> jsnum" where
  "Math_max a b = (if a = NaN \<or> b = NaN then NaN else if js_le a b then b else a)"

definition Math_min :: "jsnum \<Rightarrow> jsnum \<Rightarrow> jsnum" where
  "Math_min a b = (if a = NaN \<or> b = NaN then NaN else if js_le a b then a else b)"

section \<open>Colour model: \<open>Animation.hsvToRgb\<close>\<close>

definition hsvToRgb :: "real \<Rightarrow> real \<Rightarrow> real \<Rightarrow> int \<times> int \<times> int" where
  "hsvToRgb h s v =
     (let c = v * s;
          x = c * (1 - \<bar>js_rem (h * 6) 2 - 1\<bar>);
          m = v - c;
          (r, g, b) =
            (if h < 1 / 6 then (c, x, 0)
             else if h < 2 / 6 then (x, c, 0)
             else if h < 3 / 6 then (0, c, x)
             else if h < 4 / 6 then (0, x, c)
             else if h < 5 / 6 then (x, 0, c)
             else (c, 0, x))
      in (Math_round ((r + m) * 255),
          Math_round ((g + m) * 255),
          Math_round ((b + m) * 255)))"

section \<open>Fractal evaluator: escape-time iteration\<close>

text \<open>
  Each of the three functions runs the loop
  \<open>while (x2 + y2 <= 4 && iter < maxIter)\<close> and then smooths the count. The
  loop is a recursive function on the loop variables; it ends because
  \<open>maxIter - iter\<close> decreases. The iteration cap is a count, hence a natural
  number. The loops return the variables the tail of the function reads:
  \<open>x2\<close>, \<open>y2\<close> and \<open>iter\<close>.
\<close>

function mandelbrot_loop ::
  "real \<Rightarrow> real \<Rightarrow> nat \<Rightarrow> real \<Rightarrow> real \<Rightarrow> real \<Rightarrow> real \<Rightarrow> nat \<Rightarrow> real \<times> real \<times> nat" where
  "mandelbrot_loop cx cy maxIter x y x2 y2 iter =
     (if x2 + y2 \<le> 4 \<and> iter < maxIter then
        (let y' = 2 * x * y + cy;
             x' = x2 - y2 + cx
         in mandelbrot_loop cx cy maxIter x' y' (x' * x') (y' * y') (Suc iter))
      else (x2, y2, iter))"
  by pat_completeness auto
termination
  by (relation "measure (\<lambda>(cx, cy, maxIter, x, y, x2, y2, iter). maxIter - iter)") auto

declare mandelbrot_loop.simps [simp del]

function julia_loop ::
  "real \<Rightarrow> real \<Rightarrow> nat \<Rightarrow> real \<Rightarrow> real \<Rightarrow> real \<Rightarrow> real \<Rightarrow> nat \<Rightarrow> real \<times> real \<times> nat" where
  "julia_loop cr ci maxIter x y x2 y2 iter =
     (if x2 + y2 \<le> 4 \<and> iter < maxIter then
        (let y' = 2 * x * y + ci;
             x' = x2 - y2 + cr
         in julia_loop cr ci maxIter x' y' (x' * x') (y' * y') (Suc iter))
      else (x2, y2, iter))"
  by pat_completeness auto
termination
  by (relation "measure (\<lambda>(cr, ci, maxIter, x, y, x2, y2, iter). maxIter - iter)") auto

declare julia_loop.simps [simp del]

function burning_ship_loop ::
  "real \<Rightarrow> real \<Rightarrow> nat \<Rightarrow> real \<Rightarrow> real \<Rightarrow> real \<Rightarrow> real \<Rightarrow> nat \<Rightarrow> real \<times> real \<times> nat" where
  "burning_ship_loop cx cy maxIter x y x2 y2 iter =
     (if x2 + y2 \<le> 4 \<and> iter < maxIter then
        (let y' = 2 * \<bar>x * y\<bar> + cy;
             x' = x2 - y2 + cx
         in burning_ship_loop cx cy maxIter x' y' (x' * x') (y' * y') (Suc iter))
      else (x2, y2, iter))"
  by pat_completeness auto
termination
  by (relation "measure (\<lambda>(cx, cy, maxIter, x, y, x2, y2, iter). maxIter - iter)") auto

declare burning_ship_loop.simps [simp del]

text \<open>
  The common tail: \<open>if (iter === maxIter) return 0\<close>, then the smooth
  colouring \<open>iter + 1 - nu\<close>.
\<close>

definition smooth_count :: "nat \<Rightarrow> real \<times> real \<times> nat \<Rightarrow> real" where
  "smooth_count maxIter st =
     (case st of (x2, y2, iter) \<Rightarrow>
        if iter = maxIter then 0
        else (let log_zn = ln (x2 + y2) / 2;
                  nu = ln (log_zn / ln 2) / ln 2
              in real iter + 1 - nu))"

definition mandelbrot :: "real \<Rightarrow> real \<Rightarrow> nat \<Rightarrow> real" where
  "mandelbrot cx cy maxIter = smooth_count maxIter (mandelbrot_loop cx cy maxIter 0 0 0 0 0)"

text \<open>The default argument \<open>juliaC = { r: -0.7, i: 0.27015 }\<close> is a parameter.\<close>

definition juliaC_default :: "real \<times> real" where
  "juliaC_default = (- 0.7, 0.27015)"

definition julia :: "real \<Rightarrow> real \<Rightarrow> nat \<Rightarrow> real \<times> real \<Rightarrow> real" where
  "julia cx cy maxIter juliaC =
     smooth_count maxIter
       (julia_loop (fst juliaC) (snd juliaC) maxIter cx cy (cx * cx) (cy * cy) 0)"

definition burning_ship :: "real \<Rightarrow> real \<Rightarrow> nat \<Rightarrow> real" where
  "burning_ship cx cy maxIter = smooth_count maxIter (burning_ship_loop cx cy maxIter 0 0 0 0 0)"

section \<open>The canvas\<close>

text \<open>
  The drawing surface is a capability the engine calls into. An instance keeps
  the calls it has made on the 2d context, in order. A pixel buffer handed to
  \<open>putImageData\<close> is the function from pixel coordinates to the four values
  assigned at \<open>data[index] .. data[index + 3]\<close>.
\<close>

record canvas =
  canvas_width :: nat
  canvas_height :: nat

datatype style = Black | Rgba real real real real

datatype canvas_op =
    FillStyle style
  | FillRect real real real real
  | BeginPath
  | Arc real real real real real
  | Fill
  | PutImageData "nat \<Rightarrow> nat \<Rightarrow> real \<times> real \<times> real \<times> real"

section \<open>Parameters\<close>

text \<open>
  \<open>this.params\<close> is an object from keys to numbers, booleans and strings. It
  is a record with one typed field per key; counts are naturals. An object
  literal of parameters (the defaults, the constructor's \<open>params\<close>, the
  argument of \<open>updateParams\<close>) is a list of entries, and the spread
  \<open>{ ...a, ...b }\<close> writes the entries of \<open>a\<close> and then those of \<open>b\<close>, so
  that a later entry wins. A variant never reads a key its defaults do not
  define; the record holds the value of \<open>no_params\<close> there. The keys
  \<open>R\<close>, \<open>r\<close> and \<open>d\<close> of the spirograph and the keys \<open>centerX\<close> and
  \<open>centerY\<close> of the fractal carry a prefix.
\<close>

record params =
  speed :: real
  trails :: bool
  trailFade :: real
  numPolygons :: nat
  sides :: nat
  maxRadius :: real
  minRadius :: real
  rotationSpeed :: real
  colorShift :: real
  lineWidth :: real
  frequency1 :: real
  frequency2 :: real
  amplitude :: real
  waveSpeed :: real
  colorMode :: string
  particleCount :: nat
  gravity :: real
  bounceDamping :: real
  airDamping :: real
  trailLength :: nat
  scale :: real
  octaves :: nat
  persistence :: real
  lacunarity :: real
  timeSpeed :: real
  brightness :: real
  maxIterations :: nat
  zoomSpeed :: real
  colorSpeed :: real
  fractalType :: string
  contrast :: real
  param_centerX :: real
  param_centerY :: real
  spiro_R :: real
  spiro_r :: real
  spiro_d :: real
  spiralSpeed :: real

datatype entry =
    Speed real | Trails bool | TrailFade real
  | NumPolygons nat | Sides nat | MaxRadius real | MinRadius real
  | RotationSpeed real | ColorShift real | LineWidth real
  | Frequency1 real | Frequency2 real | Amplitude real | WaveSpeed real
  | ColorMode string
  | ParticleCount nat | Gravity real | BounceDamping real | AirDamping real
  | TrailLength nat
  | Scale real | Octaves nat | Persistence real | Lacunarity real
  | TimeSpeed real | Brightness real
  | MaxIterations nat | ZoomSpeed real | ColorSpeed real | FractalType string
  | Contrast real | CenterX real | CenterY real
  | Spiro_R real | Spiro_r real | Spiro_d real | SpiralSpeed real

fun set_param :: "entry \<Rightarrow> params \<Rightarrow> params" where
  "set_param (Speed v) p = p\<lparr>speed := v\<rparr>"
| "set_param (Trails v) p = p\<lparr>trails := v\<rparr>"
| "set_param (TrailFade v) p = p\<lparr>trailFade := v\<rparr>"
| "set_param (NumPolygons v) p = p\<lparr>numPolygons := v\<rparr>"
| "set_param (Sides v) p = p\<lparr>sides := v\<rparr>"
| "set_param (MaxRadius v) p = p\<lparr>maxRadius := v\<rparr>"
| "set_param (MinRadius v) p = p\<lparr>minRadius := v\<rparr>"
| "set_param (RotationSpeed v) p = p\<lparr>rotationSpeed := v\<rparr>"
| "set_param (ColorShift v) p = p\<lparr>colorShift := v\<rparr>"
| "set_param (LineWidth v) p = p\<lparr>lineWidth := v\<rparr>"
| "set_param (Frequency1 v) p = p\<lparr>frequency1 := v\<rparr>"
| "set_param (Frequency2 v) p = p\<lparr>frequency2 := v\<rparr>"
| "set_param (Amplitude v) p = p\<lparr>amplitude := v\<rparr>"
| "set_param (WaveSpeed v) p = p\<lparr>waveSpeed := v\<rparr>"
| "set_param (ColorMode v) p = p\<lparr>colorMode := v\<rparr>"
| "set_param (ParticleCount v) p = p\<lparr>particleCount := v\<rparr>"
| "set_param (Gravity v) p = p\<lparr>gravity := v\<rparr>"
| "set_param (BounceDamping v) p = p\<lparr>bounceDamping := v\<rparr>"
| "set_param (AirDamping v) p = p\<lparr>airDamping := v\<rparr>"
| "set_param (TrailLength v) p = p\<lparr>trailLength := v\<rparr>"
| "set_param (Scale v) p = p\<lparr>scale := v\<rparr>"
| "set_param (Octaves v) p = p\<lparr>octaves := v\<rparr>"
| "set_param (Persistence v) p = p\<lparr>persistence := v\<rparr>"
| "set_param (Lacunarity v) p = p\<lparr>lacunarity := v\<rparr>"
| "set_param (TimeSpeed v) p = p\<lparr>timeSpeed := v\<rparr>"
| "set_param (Brightness v) p = p\<lparr>brightness := v\<rparr>"
| "set_param (MaxIterations v) p = p\<lparr>maxIterations := v\<rparr>"
| "set_param (ZoomSpeed v) p = p\<lparr>zoomSpeed := v\<rparr>"
| "set_param (ColorSpeed v) p = p\<lparr>colorSpeed := v\<rparr>"
| "set_param (FractalType v) p = p\<lparr>fractalType := v\<rparr>"
| "set_param (Contrast v) p = p\<lparr>contrast := v\<rparr>"
| "set_param (CenterX v) p = p\<lparr>param_centerX := v\<rparr>"
| "set_param (CenterY v) p = p\<lparr>param_centerY := v\<rparr>"
| "set_param (Spiro_R v) p = p\<lparr>spiro_R := v\<rparr>"
| "set_param (Spiro_r v) p = p\<lparr>spiro_r := v\<rparr>"
| "set_param (Spiro_d v) p = p\<lparr>spiro_d := v\<rparr>"
| "set_param (SpiralSpeed v) p = p\<lparr>spiralSpeed := v\<rparr>"

definition no_params :: params where
  "no_params =
     \<lparr>speed = 0, trails = False, trailFade = 0, numPolygons = 0, sides = 0,
      maxRadius = 0, minRadius = 0, rotationSpeed = 0, colorShift = 0, lineWidth = 0,
      frequency1 = 0, frequency2 = 0, amplitude = 0, waveSpeed = 0, colorMode = [],
      particleCount = 0, gravity = 0, bounceDamping = 0, airDamping = 0,
      trailLength = 0, scale = 0, octaves = 0, persistence = 0, lacunarity = 0,
      timeSpeed = 0, brightness = 0, maxIterations = 0, zoomSpeed = 0,
      colorSpeed = 0, fractalType = [], contrast = 0, param_centerX = 0,
      param_centerY = 0, spiro_R = 0, spiro_r = 0, spiro_d = 0, spiralSpeed = 0\<rparr>"

definition merge :: "params \<Rightarrow> entry list \<Rightarrow> params" where
  "merge p newParams = fold set_param newParams p"

section \<open>Animation instances\<close>

text \<open>
  A particle of the particle system is \<open>{ x, y, vx, vy, trail }\<close>, a trail
  entry is \<open>{ x, y }\<close>; a point of the spirograph trail is
  \<open>{ x, y, time }\<close>.
\<close>

record particle =
  p_x :: jsnum
  p_y :: jsnum
  p_vx :: jsnum
  p_vy :: jsnum
  p_trail :: "(jsnum \<times> jsnum) list"

record trail_point =
  tp_x :: real
  tp_y :: real
  tp_time :: real

datatype animation_class =
  RotatingPolygons | WaveInterference | ParticleSystem | PerlinNoise | Fractal | Spirograph

text \<open>
  The fields a subclass adds to the base class:
  \<open>rotationPhase\<close>, \<open>lastTime\<close>, \<open>lastRotationSpeed\<close>; \<open>particles\<close>;
  \<open>noiseOffset\<close>, \<open>permutation\<close>; \<open>zoom\<close>, \<open>colorOffset\<close>;
  \<open>trailPoints\<close>.
\<close>

datatype fields =
    RotatingPolygons_fields real real real
  | WaveInterference_fields
  | ParticleSystem_fields "particle list"
  | PerlinNoise_fields real "nat list"
  | Fractal_fields real real
  | Spirograph_fields "trail_point list"

record animation =
  ctx :: "canvas_op list"
  width :: nat
  height :: nat
  centerX :: real
  centerY :: real
  frame :: nat
  time :: real
  params :: params
  isPlaying :: bool
  own :: fields

fun class_of :: "fields \<Rightarrow> animation_class" where
  "class_of (RotatingPolygons_fields ph lt ls) = RotatingPolygons"
| "class_of WaveInterference_fields = WaveInterference"
| "class_of (ParticleSystem_fields ps) = ParticleSystem"
| "class_of (PerlinNoise_fields off perm) = PerlinNoise"
| "class_of (Fractal_fields z co) = Fractal"
| "class_of (Spirograph_fields tps) = Spirograph"

subsection \<open>Default parameters\<close>

definition Animation_getDefaultParams :: "entry list" where
  "Animation_getDefaultParams = [Speed 1.0, Trails False, TrailFade 0.95]"

fun getDefaultParams :: "animation_class \<Rightarrow> entry list" where
  "getDefaultParams RotatingPolygons =
     Animation_getDefaultParams @
     [NumPolygons 5, Sides 6, MaxRadius 200, MinRadius 50, RotationSpeed 1.0,
      ColorShift 0.0, LineWidth 2]"
| "getDefaultParams WaveInterference =
     Animation_getDefaultParams @
     [Frequency1 0.05, Frequency2 0.03, Amplitude 50, WaveSpeed 1.0,
      ColorMode ''rainbow'']"
| "getDefaultParams ParticleSystem =
     Animation_getDefaultParams @
     [ParticleCount 100, Gravity 0.1, BounceDamping 0.8, AirDamping 0.999,
      TrailLength 20, ColorMode ''velocity'']"
| "getDefaultParams PerlinNoise =
     Animation_getDefaultParams @
     [Scale 0.01, Octaves 4, Persistence 0.5, Lacunarity 2.0, TimeSpeed 1.0,
      ColorMode ''rainbow'', Brightness 1.0]"
| "getDefaultParams Fractal =
     Animation_getDefaultParams @
     [MaxIterations 100, ZoomSpeed 1.0, ColorSpeed 1.0, FractalType ''mandelbrot'',
      ColorMode ''rainbow'', Brightness 1.0, Contrast 1.0, CenterX (- 0.5),
      CenterY 0.0]"
| "getDefaultParams Spirograph =
     Animation_getDefaultParams @
     [Spiro_R 100, Spiro_r 30, Spiro_d 50, SpiralSpeed 1.0, ColorShift 0.0, TrailFade 0.99]"

subsection \<open>The base class\<close>

text \<open>
  \<open>new Animation(canvas, params)\<close>, for the class whose defaults are merged
  and with the subclass fields still to be set by the subclass constructor.
\<close>

definition Animation_constructor ::
  "animation_class \<Rightarrow> canvas \<Rightarrow> entry list \<Rightarrow> fields \<Rightarrow> animation" where
  "Animation_constructor cls cv ps fs =
     \<lparr>ctx = [],
      width = canvas_width cv,
      height = canvas_height cv,
      centerX = real (canvas_width cv) / 2,
      centerY = real (canvas_height cv) / 2,
      frame = 0,
      time = 0,
      params = merge no_params (getDefaultParams cls @ ps),
      isPlaying = False,
      own = fs\<rparr>"

definition Animation_update :: "real \<Rightarrow> animation \<Rightarrow> animation" where
  "Animation_update deltaTime a =
     (if isPlaying a then
        a\<lparr>time := time a + deltaTime * speed (params a), frame := frame a + 1\<rparr>
      else a)"

definition Animation_render :: "animation \<Rightarrow> animation" where
  "Animation_render a =
     (if trails (params a) then
        a\<lparr>ctx := ctx a @
               [FillStyle (Rgba 0 0 0 (1 - trailFade (params a))),
                FillRect 0 0 (real (width a)) (real (height a))]\<rparr>
      else
        a\<lparr>ctx := ctx a @
               [FillStyle Black, FillRect 0 0 (real (width a)) (real (height a))]\<rparr>)"

definition play :: "animation \<Rightarrow> animation" where
  "play a = a\<lparr>isPlaying := True\<rparr>"

definition pause :: "animation \<Rightarrow> animation" where
  "pause a = a\<lparr>isPlaying := False\<rparr>"

definition Animation_reset :: "animation \<Rightarrow> animation" where
  "Animation_reset a =
     a\<lparr>frame := 0, time := 0,
       ctx := ctx a @ [FillStyle Black, FillRect 0 0 (real (width a)) (real (height a))]\<rparr>"

definition updateParams :: "entry list \<Rightarrow> animation \<Rightarrow> animation" where
  "updateParams newParams a = a\<lparr>params := merge (params a) newParams\<rparr>"

subsection \<open>Randomness\<close>


subsection \<open>ParticleSystem\<close>

text \<open>
  A dimension of the canvas is an unsigned 32-bit integer and
  \<open>Math.random()\<close> is below 1, so the four values of a new particle are
  finite. In \<open>update\<close> the parameters and \<open>deltaTime\<close> are finite numbers,
  and every operation on the state of a particle can overflow.
\<close>

definition new_particle :: "(nat \<Rightarrow> real) \<Rightarrow> nat \<Rightarrow> nat \<Rightarrow> nat \<Rightarrow> particle" where
  "new_particle rnd w h i =
     \<lparr>p_x = Num (rnd (4 * i) * real w),
      p_y = Num (rnd (4 * i + 1) * real h),
      p_vx = Num ((rnd (4 * i + 2) - 0.5) * 10),
      p_vy = Num ((rnd (4 * i + 3) - 0.5) * 10),
      p_trail = []\<rparr>"

definition initializeParticles :: "(nat \<Rightarrow> real) \<Rightarrow> animation \<Rightarrow> animation" where
  "initializeParticles rnd a =
     a\<lparr>own := ParticleSystem_fields
              (map (new_particle rnd (width a) (height a))
                 [0..<particleCount (params a)])\<rparr>"

definition update_particle :: "params \<Rightarrow> nat \<Rightarrow> nat \<Rightarrow> real \<Rightarrow> particle \<Rightarrow> particle" where
  "update_particle ps w h dt p =
     (let vy1 = js_add (p_vy p) (Num (gravity ps));
          vx2 = js_mul (p_vx p) (Num (airDamping ps));
          vy2 = js_mul vy1 (Num (airDamping ps));
          x1 = js_add (p_x p) (js_mul vx2 (Num dt));
          y1 = js_add (p_y p) (js_mul vy2 (Num dt));
          (vx3, x2) =
            (if js_le x1 (Num 0) \<or> js_le (Num (real w)) x1
             then (js_mul vx2 (Num (- bounceDamping ps)),
                   Math_max (Num 0) (Math_min (Num (real w)) x1))
             else (vx2, x1));
          (vy3, y2) =
            (if js_le y1 (Num 0) \<or> js_le (Num (real h)) y1
             then (js_mul vy2 (Num (- bounceDamping ps)),
                   Math_max (Num 0) (Math_min (Num (real h)) y1))
             else (vy2, y1));
          pushed = p_trail p @ [(x2, y2)];
          shifted = (if length pushed > trailLength ps then tl pushed else pushed)
      in \<lparr>p_x = x2, p_y = y2, p_vx = vx3, p_vy = vy3, p_trail = shifted\<rparr>)"

definition ParticleSystem_update :: "real \<Rightarrow> animation \<Rightarrow> particle list \<Rightarrow> animation" where
  "ParticleSystem_update deltaTime a particles =
     (let a1 = Animation_update deltaTime a in
      if \<not> isPlaying a1 then a1
      else
        (let dt = deltaTime * 0.01 in
         a1\<lparr>own := ParticleSystem_fields
                  (map (update_particle (params a1) (width a1) (height a1) dt)
                     particles)\<rparr>))"

subsection \<open>RotatingPolygons\<close>

definition RotatingPolygons_update ::
  "real \<Rightarrow> animation \<Rightarrow> real \<Rightarrow> real \<Rightarrow> real \<Rightarrow> animation" where
  "RotatingPolygons_update deltaTime a rotationPhase lastTime lastRotationSpeed =
     (let a1 = Animation_update deltaTime a in
      if isPlaying a1 then
        (let timeDelta = time a1 - lastTime in
         a1\<lparr>own := RotatingPolygons_fields
                  (rotationPhase + timeDelta * rotationSpeed (params a1) * 0.01)
                  (time a1)
                  (rotationSpeed (params a1))\<rparr>)
      else a1)"

definition RotatingPolygons_reset :: "animation \<Rightarrow> real \<Rightarrow> animation" where
  "RotatingPolygons_reset a lastRotationSpeed =
     (Animation_reset a)\<lparr>own := RotatingPolygons_fields 0 0 lastRotationSpeed\<rparr>"

subsection \<open>Fractal\<close>

definition Fractal_update :: "real \<Rightarrow> animation \<Rightarrow> real \<Rightarrow> real \<Rightarrow> animation" where
  "Fractal_update deltaTime a zoom colorOffset =
     (let a1 = Animation_update deltaTime a in
      if isPlaying a1 then
        a1\<lparr>own := Fractal_fields
                 (zoom * (1 + zoomSpeed (params a1) * 0.01 * deltaTime * 0.001))
                 (colorOffset + colorSpeed (params a1) * deltaTime * 0.0001),
           centerX := param_centerX (params a1),
           centerY := param_centerY (params a1)\<rparr>
      else a1)"

definition Fractal_reset :: "animation \<Rightarrow> animation" where
  "Fractal_reset a =
     (let a1 = Animation_reset a in
      a1\<lparr>own := Fractal_fields 1 0,
         centerX := param_centerX (params a1),
         centerY := param_centerY (params a1)\<rparr>)"

subsection \<open>Dispatch of the overridden methods\<close>

definition update :: "real \<Rightarrow> animation \<Rightarrow> animation" where
  "update deltaTime a =
     (case own a of
        RotatingPolygons_fields ph lt ls \<Rightarrow> RotatingPolygons_update deltaTime a ph lt ls
      | WaveInterference_fields \<Rightarrow> Animation_update deltaTime a
      | ParticleSystem_fields ps \<Rightarrow> ParticleSystem_update deltaTime a ps
      | PerlinNoise_fields off perm \<Rightarrow> Animation_update deltaTime a
      | Fractal_fields z co \<Rightarrow> Fractal_update deltaTime a z co
      | Spirograph_fields tps \<Rightarrow> Animation_update deltaTime a)"

definition reset :: "animation \<Rightarrow> animation" where
  "reset a =
     (case own a of
        RotatingPolygons_fields ph lt ls \<Rightarrow> RotatingPolygons_reset a ls
      | WaveInterference_fields \<Rightarrow> Animation_reset a
      | ParticleSystem_fields ps \<Rightarrow> Animation_reset a
      | PerlinNoise_fields off perm \<Rightarrow> Animation_reset a
      | Fractal_fields z co \<Rightarrow> Fractal_reset a
      | Spirograph_fields tps \<Rightarrow> Animation_reset a)"

subsection \<open>PerlinNoise\<close>

text \<open>
  \<open>generatePermutation\<close>: the identity table of 256 entries, a Fisher-Yates
  shuffle for \<open>i = 255\<close> down to 1 (the call of \<open>Math.random\<close> at index
  \<open>i\<close> is call number \<open>255 - i\<close>), and the table written a second time
  behind itself.
\<close>

definition shuffle_step :: "(nat \<Rightarrow> real) \<Rightarrow> nat \<Rightarrow> nat list \<Rightarrow> nat list" where
  "shuffle_step rnd i p =
     (let j = nat \<lfloor>rnd (255 - i) * real (i + 1)\<rfloor>
      in p[i := p ! j, j := p ! i])"

definition generatePermutation :: "(nat \<Rightarrow> real) \<Rightarrow> nat list" where
  "generatePermutation rnd =
     (let p = fold (shuffle_step rnd) (rev [1..<256]) [0..<256]
      in p @ p)"

definition fade :: "real \<Rightarrow> real" where
  "fade t = t * t * t * (t * (t * 6 - 15) + 10)"

definition lerp :: "real \<Rightarrow> real \<Rightarrow> real \<Rightarrow> real" where
  "lerp a b t = a + t * (b - a)"

definition grad :: "nat \<Rightarrow> real \<Rightarrow> real \<Rightarrow> real \<Rightarrow> real" where
  "grad hash x y z =
     (let h = hash AND 15;
          u = (if h < 8 then x else y);
          v = (if h < 4 then y else if h = 12 \<or> h = 14 then x else z)
      in (if h AND 1 = 0 then u else - u) + (if h AND 2 = 0 then v else - v))"

text \<open>
  \<open>noise\<close> reads \<open>this.permutation\<close> at indices up to 511; the table of
  \<open>generatePermutation\<close> has 512 entries below 256, so every read is in range.
\<close>

definition noise :: "nat list \<Rightarrow> real \<Rightarrow> real \<Rightarrow> real \<Rightarrow> real" where
  "noise permutation x0 y0 z0 =
     (let X = nat (\<lfloor>x0\<rfloor> AND 255);
          Y = nat (\<lfloor>y0\<rfloor> AND 255);
          Z = nat (\<lfloor>z0\<rfloor> AND 255);
          x = x0 - of_int \<lfloor>x0\<rfloor>;
          y = y0 - of_int \<lfloor>y0\<rfloor>;
          z = z0 - of_int \<lfloor>z0\<rfloor>;
          u = fade x;
          v = fade y;
          w = fade z;
          A = permutation ! X + Y;
          AA = permutation ! A + Z;
          AB = permutation ! (A + 1) + Z;
          B = permutation ! (X + 1) + Y;
          BA = permutation ! B + Z;
          BB = permutation ! (B + 1) + Z
      in lerp
           (lerp
              (lerp (grad (permutation ! AA) x y z)
                    (grad (permutation ! BA) (x - 1) y z) u)
              (lerp (grad (permutation ! AB) x (y - 1) z)
                    (grad (permutation ! BB) (x - 1) (y - 1) z) u) v)
           (lerp
              (lerp (grad (permutation ! (AA + 1)) x y (z - 1))
                    (grad (permutation ! (BA + 1)) (x - 1) y (z - 1)) u)
              (lerp (grad (permutation ! (AB + 1)) x (y - 1) (z - 1))
                    (grad (permutation ! (BB + 1)) (x - 1) (y - 1) (z - 1)) u) v) w)"

text \<open>
  The loop of \<open>fractalNoise\<close> over the octaves, on the variables
  \<open>value\<close>, \<open>amplitude\<close>, \<open>frequency\<close> and \<open>maxValue\<close>; the first argument
  counts the octaves still to run.
\<close>

fun fractalNoise_loop ::
  "nat \<Rightarrow> nat list \<Rightarrow> real \<Rightarrow> real \<Rightarrow> real \<Rightarrow> real \<Rightarrow> real \<Rightarrow>
   real \<times> real \<times> real \<times> real \<Rightarrow> real \<times> real \<times> real \<times> real" where
  "fractalNoise_loop 0 permutation x y z pers lac st = st"
| "fractalNoise_loop (Suc n) permutation x y z pers lac (val, amp, freq, maxValue) =
     fractalNoise_loop n permutation x y z pers lac
       (val + noise permutation (x * freq) (y * freq) (z * freq) * amp,
        amp * pers,
        freq * lac,
        maxValue + amp)"

definition fractalNoise ::
  "nat list \<Rightarrow> real \<Rightarrow> real \<Rightarrow> real \<Rightarrow> nat \<Rightarrow> real \<Rightarrow> real \<Rightarrow> real" where
  "fractalNoise permutation x y z oct pers lac =
     (case fractalNoise_loop oct permutation x y z pers lac (0, 1, 1, 0) of
        (val, amp, freq, maxValue) \<Rightarrow> val / maxValue)"

text \<open>
  The four values \<open>render\<close> assigns to \<open>data[index .. index + 3]\<close> for the
  pixel \<open>(x, y)\<close>.
\<close>

definition PerlinNoise_pixel ::
  "animation \<Rightarrow> real \<Rightarrow> nat list \<Rightarrow> nat \<Rightarrow> nat \<Rightarrow> real \<times> real \<times> real \<times> real" where
  "PerlinNoise_pixel a noiseOffset permutation x y =
     (let ps = params a;
          noiseValue =
            fractalNoise permutation (real x * scale ps) (real y * scale ps) noiseOffset
              (octaves ps) (persistence ps) (lacunarity ps);
          normalized = (noiseValue + 1) / 2
      in if colorMode ps = ''rainbow'' then
           (let hue = js_rem (normalized + time a * 0.0001) 1.0;
                (r, g, b) = hsvToRgb hue 0.8 (normalized * brightness ps)
            in (real_of_int r, real_of_int g, real_of_int b, 255))
         else if colorMode ps = ''fire'' then
           (let intensity = normalized * brightness ps
            in (min 255 (intensity * 255 * 2),
                min 255 (intensity * 255 * 1.5),
                min 255 (intensity * 255 * 0.5),
                255))
         else
           (let intensity = normalized * brightness ps * 255
            in (intensity, intensity, intensity, 255)))"

definition PerlinNoise_render :: "animation \<Rightarrow> real \<Rightarrow> nat list \<Rightarrow> animation" where
  "PerlinNoise_render a noiseOffset permutation =
     (let a1 = Animation_render a;
          noiseOffset' = noiseOffset + timeSpeed (params a1) * 0.01
      in a1\<lparr>own := PerlinNoise_fields noiseOffset' permutation,
            ctx := ctx a1 @ [PutImageData (PerlinNoise_pixel a1 noiseOffset' permutation)]\<rparr>)"

subsection \<open>Spirograph\<close>

definition Spirograph_draw_point :: "animation \<Rightarrow> nat \<Rightarrow> nat \<Rightarrow> trail_point \<Rightarrow> canvas_op list" where
  "Spirograph_draw_point a len index point =
     (let alpha = real index / real len;
          hue = js_rem (tp_time point * 0.1 + colorShift (params a)) 1.0;
          (r, g, b) = hsvToRgb hue 0.8 alpha
      in [FillStyle (Rgba (real_of_int r) (real_of_int g) (real_of_int b) alpha),
          BeginPath,
          Arc (tp_x point) (tp_y point) 2 0 (pi * 2),
          Fill])"

definition Spirograph_render :: "animation \<Rightarrow> trail_point list \<Rightarrow> animation" where
  "Spirograph_render a trailPoints =
     (let ps = params a;
          cleared = [FillStyle (Rgba 0 0 0 (1 - trailFade ps)),
                     FillRect 0 0 (real (width a)) (real (height a))];
          t = time a * spiralSpeed ps * 0.01;
          ratio = (spiro_R ps - spiro_r ps) / spiro_r ps;
          x = (spiro_R ps - spiro_r ps) * cos t + spiro_d ps * cos (ratio * t);
          y = (spiro_R ps - spiro_r ps) * sin t - spiro_d ps * sin (ratio * t);
          cX = centerX a + x;
          cY = centerY a + y;
          pushed =
            (if cX \<ge> 0 \<and> cX < real (width a) \<and> cY \<ge> 0 \<and> cY < real (height a)
             then trailPoints @ [\<lparr>tp_x = cX, tp_y = cY, tp_time = t\<rparr>]
             else trailPoints);
          drawn = concat (map (\<lambda>(index, point).
                      Spirograph_draw_point a (length pushed) index point)
                    (enumerate 0 pushed));
          limited =
            (if length pushed > 2000 then drop (length pushed - 2000) pushed
             else pushed)
      in a\<lparr>ctx := ctx a @ cleared @ drawn, own := Spirograph_fields limited\<rparr>)"

subsection \<open>Constructors\<close>

text \<open>
  \<open>new C(canvas, params)\<close> for each of the six classes. The constructors of
  \<open>ParticleSystem\<close> and \<open>PerlinNoise\<close> draw random numbers. The constructor
  of \<open>RotatingPolygons\<close> reads \<open>this.params\<close> after \<open>super(canvas, params)\<close>
  has merged it, when the instance has no field of the subclass yet.
\<close>

fun construct :: "animation_class \<Rightarrow> canvas \<Rightarrow> entry list \<Rightarrow> (nat \<Rightarrow> real) \<Rightarrow> animation" where
  "construct RotatingPolygons cv ps rnd =
     (let a = Animation_constructor RotatingPolygons cv ps WaveInterference_fields
      in a\<lparr>own := RotatingPolygons_fields 0 0 (rotationSpeed (params a))\<rparr>)"
| "construct WaveInterference cv ps rnd =
     Animation_constructor WaveInterference cv ps WaveInterference_fields"
| "construct ParticleSystem cv ps rnd =
     initializeParticles rnd
       (Animation_constructor ParticleSystem cv ps (ParticleSystem_fields []))"
| "construct PerlinNoise cv ps rnd =
     Animation_constructor PerlinNoise cv ps
       (PerlinNoise_fields 0 (generatePermutation rnd))"
| "construct Fractal cv ps rnd =
     (Animation_constructor Fractal cv ps (Fractal_fields 1 0))
       \<lparr>centerX := - 0.5, centerY := 0\<rparr>"
| "construct Spirograph cv ps rnd =
     Animation_constructor Spirograph cv ps (Spirograph_fields [])"

section \<open>Registry and factory\<close>

text \<open>
  \<open>ANIMATIONS\<close> is an object literal with six own properties. The lookup
  \<open>ANIMATIONS[type]\<close> also finds the properties the literal inherits from
  \<open>Object.prototype\<close>: \<open>constructor\<close> is the function \<open>Object\<close>, the others
  are built-in methods (and, for \<open>__proto__\<close>, the prototype object) that
  are truthy and are not constructors. \<open>new Object(canvas, params)\<close> returns
  its first argument.
\<close>

definition ANIMATIONS :: "(string \<times> animation_class) list" where
  "ANIMATIONS =
     [(''rotating_polygons'', RotatingPolygons),
      (''wave_interference'', WaveInterference),
      (''particle_system'', ParticleSystem),
      (''perlin_noise'', PerlinNoise),
      (''fractal'', Fractal),
      (''spirograph'', Spirograph)]"

definition Object_prototype_methods :: "string list" where
  "Object_prototype_methods =
     [''__defineGetter__'', ''__defineSetter__'', ''hasOwnProperty'',
      ''__lookupGetter__'', ''__lookupSetter__'', ''isPrototypeOf'',
      ''propertyIsEnumerable'', ''toString'', ''valueOf'', ''__proto__'',
      ''toLocaleString'']"

datatype property = Undefined | Class animation_class | Object_function | Not_a_constructor

definition ANIMATIONS_get :: "string \<Rightarrow> property" where
  "ANIMATIONS_get type =
     (case map_of ANIMATIONS type of
        Some cls \<Rightarrow> Class cls
      | None \<Rightarrow>
          if type = ''constructor'' then Object_function
          else if type \<in> set Object_prototype_methods then Not_a_constructor
          else Undefined)"

datatype error = Error string | TypeError

datatype created = Instance animation | The_canvas canvas

definition createAnimation ::
  "string \<Rightarrow> canvas \<Rightarrow> entry list \<Rightarrow> (nat \<Rightarrow> real) \<Rightarrow> error + created" where
  "createAnimation type cv ps rnd =
     (case ANIMATIONS_get type of
        Undefined \<Rightarrow> Inl (Error (''Unknown animation type: '' @ type))
      | Class cls \<Rightarrow> Inr (Instance (construct cls cv ps rnd))
      | Object_function \<Rightarrow> Inr (The_canvas cv)
      | Not_a_constructor \<Rightarrow> Inl TypeError)"

section \<open>The driver\<close>

text \<open>
  \<open>PsychedelicApp.reset\<close> calls \<open>reset\<close> on the animation, then
  \<open>initializeParticles\<close> if the instance has that method (it is a particle
  system), then empties \<open>trailPoints\<close> if the instance has that field (it is
  a spirograph; an array is truthy also when empty).
\<close>

definition PsychedelicApp_reset :: "(nat \<Rightarrow> real) \<Rightarrow> animation \<Rightarrow> animation" where
  "PsychedelicApp_reset rnd a =
     (let a1 = reset a;
          a2 = (if class_of (own a1) = ParticleSystem then initializeParticles rnd a1 else a1)
      in if class_of (own a2) = Spirograph then a2\<lparr>own := Spirograph_fields []\<rparr> else a2)"

text \<open>
  A run of an instance: the calls the driver makes between two
  reinitialisations, in order.
\<close>

datatype call = Update real | UpdateParams "entry list" | Play | Pause | Reset

fun perform :: "call \<Rightarrow> animation \<Rightarrow> animation" where
  "perform (Update deltaTime) a = update deltaTime a"
| "perform (UpdateParams newParams) a = updateParams newParams a"
| "perform Play a = play a"
| "perform Pause a = pause a"
| "perform Reset a = reset a"

definition run :: "call list \<Rightarrow> animation \<Rightarrow> animation" where
  "run calls a = fold perform calls a"

section \<open>Reading an instance\<close>

text \<open>
  \<open>this.particles\<close> of a particle system (no particles for another class), and
  the predicates of the statements below on the positions and trails.
\<close>

definition particles :: "animation \<Rightarrow> particle list" where
  "particles a = (case own a of ParticleSystem_fields ps \<Rightarrow> ps | _ \<Rightarrow> [])"


fun closed_range :: "nat \<Rightarrow> jsnum \<Rightarrow> bool" where
  "closed_range n (Num v) = (0 \<le> v \<and> v \<le> real n)"
| "closed_range n c = False"


definition inside_or_NaN :: "animation \<Rightarrow> particle \<Rightarrow> bool" where
  "inside_or_NaN a p =
     ((p_x p = NaN \<or> closed_range (width a) (p_x p)) \<and>
      (p_y p = NaN \<or> closed_range (height a) (p_y p)))"

text \<open>
  The colour at \<open>(x, y)\<close> of the image that the last canvas call of an
  instance put on the canvas, if that call was \<open>putImageData\<close>.
\<close>

definition put_image :: "animation \<Rightarrow> nat \<Rightarrow> nat \<Rightarrow> (real \<times> real \<times> real \<times> real) option" where
  "put_image a x y =
     (if ctx a = [] then None
      else case last (ctx a) of PutImageData data \<Rightarrow> Some (data x y) | _ \<Rightarrow> None)"

section \<open>Example instances\<close>

text \<open>
  A canvas of 800 by 600 pixels, a random source that returns 1/2 at every
  call, and a particle system of one particle with a trail of at most two
  entries, created on that canvas.
\<close>

definition example_canvas :: canvas where
  "example_canvas = \<lparr>canvas_width = 800, canvas_height = 600\<rparr>"

definition always_half :: "nat \<Rightarrow> real" where
  "always_half k = 1 / 2"

definition one_particle :: animation where
  "one_particle =
     construct ParticleSystem example_canvas [ParticleCount 1, TrailLength 2] always_half"

definition lowering_run :: "call list" where
  "lowering_run = [Play, Update 16, Update 16, UpdateParams [TrailLength 1], Update 16]"




text \<open>
  A noise field of one octave in grey levels whose time offset advances by
  0.05 at every render, and one whose time offset does not advance.
\<close>

definition grey_noise :: animation where
  "grey_noise =
     construct PerlinNoise example_canvas
       [Octaves 1, TimeSpeed 5, ColorMode ''monochrome''] always_half"

definition still_noise :: animation where
  "still_noise = construct PerlinNoise example_canvas [TimeSpeed 0] always_half"

text \<open>
  Instances that have run for one frame: rotating polygons and a fractal after
  \<open>play(); update(16)\<close>, a spirograph after one \<open>render()\<close>.
\<close>

definition example_polygons :: animation where
  "example_polygons = update 16 (play (construct RotatingPolygons example_canvas [] always_half))"

definition example_fractal :: animation where
  "example_fractal = update 16 (play (construct Fractal example_canvas [] always_half))"

definition example_spirograph :: animation where
  "example_spirograph =
     Spirograph_render (construct Spirograph example_canvas [] always_half) []"

section \<open>Single entries of a shuffled table\<close>

text \<open>
  The table after the first \<open>m\<close> rounds of the shuffle in
  \<open>generatePermutation\<close> (the rounds for \<open>i = 255, 254, ..\<close>). It serves to
  read one entry of a permutation table without computing the whole table.
\<close>

fun shuffled_after :: "(nat \<Rightarrow> real) \<Rightarrow> nat \<Rightarrow> nat list" where
  "shuffled_after rnd 0 = [0..<256]"
| "shuffled_after rnd (Suc m) = shuffle_step rnd (255 - m) (shuffled_after rnd m)"


section \<open>Evaluation of the example instances\<close>

lemmas update_defs =
  update_def Animation_update_def RotatingPolygons_update_def ParticleSystem_update_def
  Fractal_update_def

lemmas reset_defs =
  reset_def Animation_reset_def RotatingPolygons_reset_def Fractal_reset_def

lemmas construct_defs =
  Animation_constructor_def initializeParticles_def merge_def
  Animation_getDefaultParams_def no_params_def new_particle_def

lemma MAX_VALUE_value:
  "MAX_VALUE =
     179769313486231570814527423731704356798070567525844996598917476803157260780028538760589558632766878171540458953514382464234321326889464182768467546703537516986049910576551282076245490090389328944075868508455133942304583236903222948165808559332123348274797826204144723168738177180919299881250404026184124858368"
  by (simp add: MAX_VALUE_def)

lemmas number_defs = overflow_def MAX_VALUE_value Math_max_def Math_min_def

lemma one_particle_value:
  "one_particle =
     \<lparr>ctx = [], width = 800, height = 600, centerX = 400, centerY = 300, frame = 0,
      time = 0,
      params = merge no_params
                 (getDefaultParams ParticleSystem @ [ParticleCount 1, TrailLength 2]),
      isPlaying = False,
      own = ParticleSystem_fields
              [\<lparr>p_x = Num 400, p_y = Num 300, p_vx = Num 0, p_vy = Num 0,
                p_trail = []\<rparr>]\<rparr>"
  by (simp add: one_particle_def example_canvas_def always_half_def construct_defs)

lemma one_particle_updated:
  "update 16 (play one_particle) =
     \<lparr>ctx = [], width = 800, height = 600, centerX = 400, centerY = 300, frame = 1,
      time = 16,
      params = merge no_params
                 (getDefaultParams ParticleSystem @ [ParticleCount 1, TrailLength 2]),
      isPlaying = True,
      own = ParticleSystem_fields
              [\<lparr>p_x = Num 400, p_y = Num 300.015984, p_vx = Num 0, p_vy = Num 0.0999,
                p_trail = [(Num 400, Num 300.015984)]\<rparr>]\<rparr>"
  by (simp add: one_particle_value play_def update_defs update_particle_def Let_def merge_def
      Animation_getDefaultParams_def no_params_def number_defs)

lemma example_polygons_own: "own example_polygons = RotatingPolygons_fields 0.16 16 1"
  by (simp add: example_polygons_def example_canvas_def play_def update_defs construct_defs Let_def)

lemma example_fractal_own: "own example_fractal = Fractal_fields 1.00016 0.0016"
  by (simp add: example_fractal_def example_canvas_def play_def update_defs construct_defs Let_def)

lemma example_spirograph_own:
  "own example_spirograph = Spirograph_fields [\<lparr>tp_x = 520, tp_y = 300, tp_time = 0\<rparr>]"
  by (simp add: example_spirograph_def example_canvas_def Spirograph_render_def construct_defs Let_def)

section \<open>Properties of the lifecycle\<close>

text \<open>
  C1. For every variant, \<open>update(deltaTime)\<close> leaves the whole instance
  unchanged when \<open>isPlaying\<close> is false; when \<open>isPlaying\<close> is true it adds
  \<open>deltaTime * params.speed\<close> to \<open>time\<close> and increments \<open>frame\<close> by
  exactly 1.
\<close>

theorem update_contract:
  "(\<not> isPlaying a \<longrightarrow> update deltaTime a = a) \<and>
   (isPlaying a \<longrightarrow>
      time (update deltaTime a) = time a + deltaTime * speed (params a) \<and>
      frame (update deltaTime a) = frame a + 1)"
  by (cases "own a") (simp_all add: update_defs Let_def)

theorem update_contract_witness:
  "\<not> isPlaying one_particle \<and> update 16 one_particle = one_particle \<and>
   isPlaying (play one_particle) \<and>
   time (update 16 (play one_particle)) = 16 \<and>
   frame (update 16 (play one_particle)) = 1"
  using update_contract [of one_particle 16] update_contract [of "play one_particle" 16]
  by (simp add: one_particle_value play_def merge_def Animation_getDefaultParams_def
      no_params_def)


text \<open>
  C2 says that \<open>reset()\<close> also empties the trail buffers. The particle system
  and the spirograph do not override \<open>reset\<close>: after one update the trail of
  the particle has an entry, and \<open>reset()\<close> leaves it there.
\<close>

theorem reset_keeps_trails_counterexample:
  "map p_trail (particles (reset (update 16 (play one_particle))))
     = [[(Num 400, Num 300.015984)]]"
  by (simp add: one_particle_updated reset_defs particles_def)

text \<open>
  C2, amended. For every variant \<open>reset()\<close> sets \<open>frame\<close> and \<open>time\<close> to 0; it
  sets the rotation phase and the last-sampled-time cursor of rotating polygons
  to 0, and the zoom of a fractal to 1, its colour offset to 0 and its centre
  to the parameters \<open>centerX\<close> and \<open>centerY\<close>. It leaves the
  particles with their trails and the \<open>trailPoints\<close> of a spirograph as they
  are: the driver's reset empties them, by reinitialising the particles and by
  assigning an empty \<open>trailPoints\<close>, after it has called \<open>reset()\<close>.
\<close>

theorem reset_contract:
  "frame (reset a) = 0 \<and> time (reset a) = 0 \<and>
   (own a = RotatingPolygons_fields ph lt ls \<longrightarrow>
      own (reset a) = RotatingPolygons_fields 0 0 ls) \<and>
   (own a = Fractal_fields z co \<longrightarrow>
      own (reset a) = Fractal_fields 1 0 \<and>
      centerX (reset a) = param_centerX (params a) \<and>
      centerY (reset a) = param_centerY (params a)) \<and>
   (own a = ParticleSystem_fields ps \<longrightarrow>
      own (reset a) = ParticleSystem_fields ps \<and>
      (\<forall>p \<in> set (particles (PsychedelicApp_reset rnd a)). p_trail p = [])) \<and>
   (own a = Spirograph_fields tps \<longrightarrow>
      own (reset a) = Spirograph_fields tps \<and>
      own (PsychedelicApp_reset rnd a) = Spirograph_fields [])"
  by (cases "own a")
     (auto simp add: reset_defs PsychedelicApp_reset_def Let_def initializeParticles_def
        particles_def new_particle_def)

theorem reset_contract_witness:
  "own example_polygons = RotatingPolygons_fields 0.16 16 1 \<and>
   own (reset example_polygons) = RotatingPolygons_fields 0 0 1 \<and>
   own example_fractal = Fractal_fields 1.00016 0.0016 \<and>
   own (reset example_fractal) = Fractal_fields 1 0 \<and>
   centerX (reset example_fractal) = param_centerX (params example_fractal) \<and>
   centerY (reset example_fractal) = param_centerY (params example_fractal) \<and>
   own (update 16 (play one_particle)) =
     ParticleSystem_fields
       [\<lparr>p_x = Num 400, p_y = Num 300.015984, p_vx = Num 0, p_vy = Num 0.0999,
         p_trail = [(Num 400, Num 300.015984)]\<rparr>] \<and>
   own (reset (update 16 (play one_particle))) = own (update 16 (play one_particle)) \<and>
   list_all (\<lambda>p. p_trail p = [])
     (particles (PsychedelicApp_reset always_half (update 16 (play one_particle)))) \<and>
   own example_spirograph = Spirograph_fields [\<lparr>tp_x = 520, tp_y = 300, tp_time = 0\<rparr>] \<and>
   own (reset example_spirograph) = own example_spirograph \<and>
   own (PsychedelicApp_reset always_half example_spirograph) = Spirograph_fields []"
proof -
  have p: "own (update 16 (play one_particle)) =
     ParticleSystem_fields
       [\<lparr>p_x = Num 400, p_y = Num 300.015984, p_vx = Num 0, p_vy = Num 0.0999,
         p_trail = [(Num 400, Num 300.015984)]\<rparr>]"
    by (simp add: one_particle_updated)
  from reset_contract [where a = example_polygons and ph = "0.16" and lt = 16 and ls = 1]
       reset_contract [where a = example_fractal and z = "1.00016" and co = "0.0016"]
       reset_contract [where a = "update 16 (play one_particle)" and rnd = always_half
         and ps = "[\<lparr>p_x = Num 400, p_y = Num 300.015984, p_vx = Num 0,
                     p_vy = Num 0.0999, p_trail = [(Num 400, Num 300.015984)]\<rparr>]"]
       reset_contract [where a = example_spirograph and rnd = always_half
         and tps = "[\<lparr>tp_x = 520, tp_y = 300, tp_time = 0\<rparr>]"]
       example_polygons_own example_fractal_own example_spirograph_own p
  show ?thesis by (simp add: list_all_iff)
qed

section \<open>Properties of the factory\<close>

lemma class_of_construct:
  "class_of (own (construct cls cv ps rnd)) = cls"
  by (cases cls) (simp_all add: Animation_constructor_def initializeParticles_def Let_def)

lemma createAnimation_registered:
  "createAnimation ''rotating_polygons'' cv ps rnd =
     Inr (Instance (construct RotatingPolygons cv ps rnd))"
  "createAnimation ''wave_interference'' cv ps rnd =
     Inr (Instance (construct WaveInterference cv ps rnd))"
  "createAnimation ''particle_system'' cv ps rnd =
     Inr (Instance (construct ParticleSystem cv ps rnd))"
  "createAnimation ''perlin_noise'' cv ps rnd =
     Inr (Instance (construct PerlinNoise cv ps rnd))"
  "createAnimation ''fractal'' cv ps rnd =
     Inr (Instance (construct Fractal cv ps rnd))"
  "createAnimation ''spirograph'' cv ps rnd =
     Inr (Instance (construct Spirograph cv ps rnd))"
  by (simp_all add: createAnimation_def ANIMATIONS_get_def ANIMATIONS_def)

lemma createAnimation_unknown:
  "k \<notin> fst ` set ANIMATIONS \<Longrightarrow> k \<noteq> ''constructor'' \<Longrightarrow>
   k \<notin> set Object_prototype_methods \<Longrightarrow>
   createAnimation k cv ps rnd = Inl (Error (''Unknown animation type: '' @ k))"
  by (auto simp add: createAnimation_def ANIMATIONS_get_def ANIMATIONS_def)

text \<open>
  C3 says that \<open>createAnimation\<close> throws the unknown-type error exactly when
  the key is not one of the six registered keys. The six keys give an instance
  of their class, and a key that no object has gives the error (the two
  lemmas above). The key \<open>constructor\<close> is not registered, yet the guard
  \<open>!ANIMATIONS[type]\<close> finds the inherited property and lets it pass: no
  error is thrown, and the call returns the canvas it was given, which is no
  animation instance.
\<close>

theorem createAnimation_constructor_key:
  "createAnimation ''constructor'' cv ps rnd = Inr (The_canvas cv)"
  by (simp add: createAnimation_def ANIMATIONS_get_def ANIMATIONS_def)

section \<open>Properties of the particle system\<close>





lemma width_perform [simp]: "width (perform c a) = width a"
  by (cases c; cases "own a")
     (simp_all add: update_defs reset_defs Let_def play_def pause_def updateParams_def)

lemma height_perform [simp]: "height (perform c a) = height a"
  by (cases c; cases "own a")
     (simp_all add: update_defs reset_defs Let_def play_def pause_def updateParams_def)


lemma inside_or_NaN_perform [simp]: "inside_or_NaN (perform c a) p = inside_or_NaN a p"
  by (simp add: inside_or_NaN_def)











lemma update_particle_trail_length:
  "length (p_trail (update_particle ps w h dt p)) \<le> max (length (p_trail p)) (trailLength ps)"
  by (simp add: update_particle_def Let_def split: prod.splits)

text \<open>
  C5 says that no trail is ever longer than the current \<open>trailLength\<close>, also
  when \<open>updateParams\<close> lowers it during a run. An update pushes one entry and
  shifts at most one (the lemma above: a trail never grows beyond the larger of
  its length and the cap), so a trail that is longer than a lowered cap stays
  longer: after two updates with \<open>trailLength = 2\<close>, lowering the cap to 1 and
  a third update, the trail of the particle still has two entries.
\<close>

theorem trail_exceeds_lowered_trailLength:
  "map (\<lambda>p. length (p_trail p)) (particles (run lowering_run one_particle)) = [2] \<and>
   trailLength (params (run lowering_run one_particle)) = 1"
  by (simp add: run_def lowering_run_def one_particle_value play_def update_defs
      update_particle_def Let_def merge_def updateParams_def particles_def
      Animation_getDefaultParams_def no_params_def number_defs)

section \<open>Properties of the noise field\<close>

lemma fold_rounds:
  "fold f (map (\<lambda>m. 255 - m) [0..<Suc m]) s = f (255 - m) (fold f (map (\<lambda>m. 255 - m) [0..<m]) s)"
  by simp

lemma shuffled_after_fold:
  "shuffled_after rnd m = fold (shuffle_step rnd) (map (\<lambda>m. 255 - m) [0..<m]) [0..<256]"
  by (induction m) simp_all

lemma rev_rounds: "rev [1..<256] = map (\<lambda>m. 255 - m) [0..<255]"
proof (rule nth_equalityI)
  show "length (rev [1..<256]) = length (map (\<lambda>m. 255 - m) [0..<255])" by simp
next
  fix i assume "i < length (rev [1..<256])"
  then have i: "i < 255" by simp
  then show "rev [1..<256] ! i = map (\<lambda>m. 255 - m) [0..<255] ! i"
    by (simp add: rev_nth)
qed

lemma generatePermutation_shuffled:
  "generatePermutation rnd = shuffled_after rnd 255 @ shuffled_after rnd 255"
  by (simp only: generatePermutation_def Let_def shuffled_after_fold rev_rounds)

lemma length_shuffle_step [simp]: "length (shuffle_step rnd i p) = length p"
  by (simp add: shuffle_step_def Let_def)

lemma length_shuffled_after [simp]: "length (shuffled_after rnd m) = 256"
  by (induction m) simp_all

lemma always_half_target: "nat \<lfloor>always_half k * real (i + 1)\<rfloor> = (i + 1) div 2"
proof -
  have "always_half k * real (i + 1) = real (i + 1) / 2"
    by (simp add: always_half_def)
  also have "\<lfloor>real (i + 1) / 2\<rfloor> = \<lfloor>real_of_int (int (i + 1)) / real_of_int 2\<rfloor>"
    by simp
  also have "\<dots> = int (i + 1) div 2"
    by (rule floor_divide_of_int_eq)
  finally show ?thesis
    by (simp add: nat_div_distrib)
qed

lemma shuffled_after_half_entry:
  assumes "m < 255" and "k < 256"
  shows "shuffled_after always_half (Suc m) ! k =
           (if k = (256 - m) div 2 then shuffled_after always_half m ! (255 - m)
            else if k = 255 - m then shuffled_after always_half m ! ((256 - m) div 2)
            else shuffled_after always_half m ! k)"
proof -
  have j: "(255 - m + 1) div 2 = (256 - m) div 2"
    using assms(1) by simp
  have lt: "(256 - m) div 2 < 256" "255 - m < 256"
    by simp_all
  have step: "shuffle_step always_half (255 - m) p =
      p[255 - m := p ! ((256 - m) div 2), (256 - m) div 2 := p ! (255 - m)]" for p
    by (simp only: shuffle_step_def Let_def always_half_target j)
  show ?thesis
    using assms lt
    by (simp add: step nth_list_update del: shuffle_step_def)
qed

lemma shuffled_after_half_numeral:
  assumes "pred_numeral v < 255" and "k < 256"
  shows "shuffled_after always_half (numeral v) ! k =
           (if k = (256 - pred_numeral v) div 2
            then shuffled_after always_half (pred_numeral v) ! (255 - pred_numeral v)
            else if k = 255 - pred_numeral v
            then shuffled_after always_half (pred_numeral v) ! ((256 - pred_numeral v) div 2)
            else shuffled_after always_half (pred_numeral v) ! k)"
  using shuffled_after_half_entry [OF assms] by (simp add: numeral_eq_Suc)

lemma shuffled_after_half_one:
  assumes "k < 256"
  shows "shuffled_after always_half (Suc 0) ! k =
           (if k = 128 then 255 else if k = 255 then 128 else k)"
  using shuffled_after_half_entry [of 0 k] assms by simp

lemma shuffled_after_zero: "k < 256 \<Longrightarrow> shuffled_after rnd 0 ! k = k"
  by simp

lemmas half_entry = shuffled_after_half_numeral shuffled_after_half_one

lemma half_entries:
  "shuffled_after always_half 255 ! 25 = 201"
  "shuffled_after always_half 255 ! 26 = 13"
  "shuffled_after always_half 255 ! 231 = 232"
  "shuffled_after always_half 255 ! 232 = 116"
  "shuffled_after always_half 255 ! 43 = 173"
  "shuffled_after always_half 255 ! 44 = 22"
  "shuffled_after always_half 255 ! 247 = 248"
  "shuffled_after always_half 255 ! 248 = 124"
  "shuffled_after always_half 255 ! 188 = 94"
  "shuffled_after always_half 255 ! 189 = 190"
  "shuffled_after always_half 255 ! 131 = 132"
  "shuffled_after always_half 255 ! 132 = 66"
  "shuffled_after always_half 255 ! 37 = 149"
  "shuffled_after always_half 255 ! 38 = 19"
  by (simp_all add: half_entry del: shuffled_after.simps)

lemma generatePermutation_half_entry:
  "k < 256 \<Longrightarrow> generatePermutation always_half ! k = shuffled_after always_half 255 ! k"
  by (simp add: generatePermutation_shuffled nth_append)

lemma and_15_nat: "(n::nat) AND 15 = n mod 16"
proof -
  have "n AND mask 4 = take_bit 4 n"
    by (simp add: take_bit_eq_mask)
  moreover have "mask 4 = (15::nat)"
    by (simp add: mask_eq_exp_minus_1)
  ultimately show ?thesis
    by (simp add: take_bit_eq_mod)
qed

lemma and_2_nat: "((n::nat) AND 2 = 0) = even (n div 2)"
proof -
  have "(n AND 2 ^ 1 = 0) = (\<not> bit n 1)"
    by (rule and_exp_eq_0_iff_not_bit)
  then show ?thesis
    by (simp add: bit_iff_odd)
qed

lemma grad_arith:
  "grad hash x y z =
     (let h = hash mod 16;
          u = (if h < 8 then x else y);
          v = (if h < 4 then y else if h = 12 \<or> h = 14 then x else z)
      in (if even h then u else - u) + (if even (h div 2) then v else - v))"
  by (simp add: grad_def Let_def and_15_nat and_2_nat and_one_eq mod_2_eq_odd)

lemma noise_half:
  "noise (generatePermutation always_half) (51 / 2) (61 / 2) (63 / 4) = 8351 / 8192"
  by (simp add: noise_def Let_def generatePermutation_half_entry half_entries
      fade_def lerp_def grad_arith)

text \<open>
  C6 says that \<open>fractalNoise\<close> stays within \<open>[-1, 1]\<close> for every table of
  \<open>generatePermutation\<close>, and \<open>render\<close> relies on it (\<open>Convert from [-1,1] to
  [0,1]\<close>). With one octave \<open>fractalNoise\<close> is \<open>noise\<close>, whose gradients are
  sums of two coordinates. For the table the shuffle produces when
  \<open>Math.random()\<close> returns 1/2 at every call, the value at the point
  \<open>(25.5, 30.5, 15.75)\<close> is 8351/8192, which is above 1.
\<close>

theorem fractalNoise_above_one:
  "fractalNoise (generatePermutation always_half) (51 / 2) (61 / 2) (63 / 4) 1 (1 / 2) 2
     = 8351 / 8192"
proof -
  have "fractalNoise_loop 1 (generatePermutation always_half) (51 / 2) (61 / 2) (63 / 4)
          (1 / 2) 2 (0, 1, 1, 0)
        = (noise (generatePermutation always_half) (51 / 2) (61 / 2) (63 / 4), 1 / 2, 2, 1)"
    by (simp add: numeral_eq_Suc)
  then show ?thesis
    by (simp add: fractalNoise_def noise_half)
qed

lemma half_entries_low:
  "shuffled_after always_half 255 ! 0 = 0"
  "shuffled_after always_half 255 ! Suc 0 = 129"
  "shuffled_after always_half 255 ! 65 = 131"
  "shuffled_after always_half 255 ! 66 = 33"
  "shuffled_after always_half 255 ! 129 = 130"
  "shuffled_after always_half 255 ! 130 = 65"
  by (simp_all add: half_entry del: shuffled_after.simps)

lemma noise_grey_first:
  "noise (generatePermutation always_half) (1 / 2) (1 / 2) (1 / 20) = 127760963 / 128000000"
  by (simp add: noise_def Let_def generatePermutation_half_entry half_entries half_entries_low
      fade_def lerp_def grad_arith)

lemma noise_grey_second:
  "noise (generatePermutation always_half) (1 / 2) (1 / 2) (1 / 10) = 15411 / 15625"
  by (simp add: noise_def Let_def generatePermutation_half_entry half_entries half_entries_low
      fade_def lerp_def grad_arith)

lemma grey_noise_params:
  "scale (params grey_noise) = 1 / 100"
  "octaves (params grey_noise) = 1"
  "persistence (params grey_noise) = 1 / 2"
  "lacunarity (params grey_noise) = 2"
  "timeSpeed (params grey_noise) = 5"
  "brightness (params grey_noise) = 1"
  "colorMode (params grey_noise) = ''monochrome''"
  "isPlaying grey_noise = False"
  "own grey_noise = PerlinNoise_fields 0 (generatePermutation always_half)"
  by (simp_all add: grey_noise_def Animation_constructor_def merge_def
      Animation_getDefaultParams_def no_params_def)

text \<open>
  C10 says that \<open>PerlinNoise.render()\<close> adds \<open>timeSpeed * 0.01\<close> to
  \<open>noiseOffset\<close> on every call, whatever \<open>isPlaying\<close> is, and that two
  consecutive \<open>render()\<close> calls on a paused instance therefore sample the
  noise field at different time offsets. Neither the constructor nor
  \<open>updateParams\<close> checks \<open>timeSpeed\<close>: on a paused instance created with
  \<open>timeSpeed = 0\<close> the first and the second \<open>render()\<close> both end at the
  offset 0 and put the same image on the canvas.
\<close>

theorem render_twice_same_offset_counterexample:
  "isPlaying still_noise = False \<and>
   timeSpeed (params still_noise) = 0 \<and>
   own still_noise = PerlinNoise_fields 0 (generatePermutation always_half) \<and>
   own (PerlinNoise_render still_noise 0 (generatePermutation always_half)) =
     PerlinNoise_fields 0 (generatePermutation always_half) \<and>
   own (PerlinNoise_render (PerlinNoise_render still_noise 0 (generatePermutation always_half))
          0 (generatePermutation always_half)) =
     PerlinNoise_fields 0 (generatePermutation always_half) \<and>
   put_image (PerlinNoise_render (PerlinNoise_render still_noise 0 (generatePermutation always_half))
          0 (generatePermutation always_half)) =
     put_image (PerlinNoise_render still_noise 0 (generatePermutation always_half))"
  by (simp add: still_noise_def Animation_constructor_def merge_def
      Animation_getDefaultParams_def no_params_def PerlinNoise_render_def PerlinNoise_pixel_def
      Animation_render_def put_image_def Let_def fun_eq_iff)

text \<open>
  C10, amended. \<open>PerlinNoise.render()\<close> adds \<open>timeSpeed * 0.01\<close> to
  \<open>noiseOffset\<close> on every call, whatever \<open>isPlaying\<close> is, and leaves
  \<open>isPlaying\<close> and the parameters as they were. The image it puts on the
  canvas has at \<open>(x, y)\<close> the colour, in the current colour mode, of
  \<open>fractalNoise\<close> sampled at \<open>(x * scale, y * scale)\<close> and the new offset. A
  second \<open>render()\<close> on the instance the first one left adds
  \<open>timeSpeed * 0.01\<close> once more, and it ends at the offset of the first exactly
  when \<open>timeSpeed\<close> is 0: the two calls sample at different offsets for every
  other \<open>timeSpeed\<close>, in particular on the range 0.1 to 5 of the control.
\<close>

theorem PerlinNoise_render_advances_noiseOffset:
  "own (PerlinNoise_render a off perm) =
     PerlinNoise_fields (off + timeSpeed (params a) * 0.01) perm \<and>
   isPlaying (PerlinNoise_render a off perm) = isPlaying a \<and>
   params (PerlinNoise_render a off perm) = params a \<and>
   put_image (PerlinNoise_render a off perm) x y =
     Some (let noiseValue =
                 fractalNoise perm (real x * scale (params a)) (real y * scale (params a))
                   (off + timeSpeed (params a) * 0.01)
                   (octaves (params a)) (persistence (params a)) (lacunarity (params a));
               normalized = (noiseValue + 1) / 2
           in if colorMode (params a) = ''rainbow'' then
                (case hsvToRgb (js_rem (normalized + time a * 0.0001) 1) 0.8
                        (normalized * brightness (params a)) of
                   (r, g, b) \<Rightarrow> (real_of_int r, real_of_int g, real_of_int b, 255))
              else if colorMode (params a) = ''fire'' then
                (min 255 (normalized * brightness (params a) * 255 * 2),
                 min 255 (normalized * brightness (params a) * 255 * 1.5),
                 min 255 (normalized * brightness (params a) * 255 * 0.5),
                 255)
              else
                (normalized * brightness (params a) * 255,
                 normalized * brightness (params a) * 255,
                 normalized * brightness (params a) * 255,
                 255)) \<and>
   own (PerlinNoise_render (PerlinNoise_render a off perm)
          (off + timeSpeed (params a) * 0.01) perm) =
     PerlinNoise_fields (off + timeSpeed (params a) * 0.01 + timeSpeed (params a) * 0.01) perm \<and>
   (own (PerlinNoise_render (PerlinNoise_render a off perm)
           (off + timeSpeed (params a) * 0.01) perm) =
    own (PerlinNoise_render a off perm)) = (timeSpeed (params a) = 0)"
  by (simp add: PerlinNoise_render_def PerlinNoise_pixel_def Animation_render_def put_image_def
      Let_def)

text \<open>
  On a paused noise field of one octave in grey levels with \<open>timeSpeed = 5\<close>,
  the first \<open>render()\<close> samples at the offset 0.05 and the second at 0.1, and
  the pixel (50, 50) gets another grey level in the second image than in the
  first.
\<close>

theorem PerlinNoise_render_advances_noiseOffset_witness:
  "isPlaying grey_noise = False \<and>
   own (PerlinNoise_render grey_noise 0 (generatePermutation always_half)) =
     PerlinNoise_fields (1 / 20) (generatePermutation always_half) \<and>
   put_image (PerlinNoise_render grey_noise 0 (generatePermutation always_half)) 50 50 =
     Some (13043809113 / 51200000, 13043809113 / 51200000, 13043809113 / 51200000, 255) \<and>
   own (PerlinNoise_render (PerlinNoise_render grey_noise 0 (generatePermutation always_half))
          (1 / 20) (generatePermutation always_half)) =
     PerlinNoise_fields (1 / 10) (generatePermutation always_half) \<and>
   put_image (PerlinNoise_render (PerlinNoise_render grey_noise 0 (generatePermutation always_half))
          (1 / 20) (generatePermutation always_half)) 50 50 =
     Some (791418 / 3125, 791418 / 3125, 791418 / 3125, 255)"
proof -
  have one_octave: "fractalNoise (generatePermutation always_half) (1 / 2) (1 / 2) z (Suc 0) (1 / 2) 2
      = noise (generatePermutation always_half) (1 / 2) (1 / 2) z" for z
    by (simp add: fractalNoise_def)
  note first = PerlinNoise_render_advances_noiseOffset
    [of grey_noise 0 "generatePermutation always_half" 50 50]
  note second = PerlinNoise_render_advances_noiseOffset
    [of "PerlinNoise_render grey_noise 0 (generatePermutation always_half)" "1 / 20"
        "generatePermutation always_half" 50 50]
  have same: "params (PerlinNoise_render grey_noise 0 (generatePermutation always_half))
      = params grey_noise"
    using first by simp
  from first second show ?thesis
    unfolding same
    by (simp add: grey_noise_params one_octave noise_grey_first noise_grey_second Let_def)
qed

section \<open>Properties of the colour model\<close>

text \<open>
  C9. \<open>hsvToRgb(h, 1, 1)\<close> returns exactly (255,0,0) at h = 0, (255,255,0) at
  h = 1/6, (0,255,0) at h = 2/6, (0,255,255) at h = 3/6, (0,0,255) at h = 4/6 and
  (255,0,255) at h = 5/6: at each sector boundary the comparison \<open>h < k/6\<close> is
  false, the next branch is taken, and the triangle term \<open>x\<close> is 0 or 1 there.
\<close>

theorem hsvToRgb_primary_hues:
  "hsvToRgb 0 1 1 = (255, 0, 0) \<and>
   hsvToRgb (1 / 6) 1 1 = (255, 255, 0) \<and>
   hsvToRgb (2 / 6) 1 1 = (0, 255, 0) \<and>
   hsvToRgb (3 / 6) 1 1 = (0, 255, 255) \<and>
   hsvToRgb (4 / 6) 1 1 = (0, 0, 255) \<and>
   hsvToRgb (5 / 6) 1 1 = (255, 0, 255)"
  by (intro conjI) (simp_all add: hsvToRgb_def js_rem_def js_trunc_def Math_round_def)

section \<open>Properties of the fractal evaluator\<close>

lemma mandelbrot_loop_origin:
  "mandelbrot_loop 0 0 maxIter 0 0 0 0 iter = (0, 0, max iter maxIter)"
proof (induction "maxIter - iter" arbitrary: iter)
  case 0
  then show ?case
    by (subst mandelbrot_loop.simps) (simp add: max_def)
next
  case (Suc n)
  then have lt: "iter < maxIter" and n: "n = maxIter - Suc iter"
    by auto
  have "mandelbrot_loop 0 0 maxIter 0 0 0 0 iter =
        mandelbrot_loop 0 0 maxIter 0 0 0 0 (Suc iter)"
    using lt by (subst mandelbrot_loop.simps) simp
  also have "\<dots> = (0, 0, max (Suc iter) maxIter)"
    using Suc.hyps(1)[OF n] .
  finally show ?case
    using lt by (simp add: max_def)
qed

text \<open>
  C7. \<open>mandelbrot(0, 0, maxIterations)\<close> returns 0 for every iteration cap:
  starting from z = 0 with c = (0,0) the orbit stays at 0, the escape condition
  \<open>x2 + y2 > 4\<close> never holds, and the loop ends with \<open>iter = maxIter\<close>.
\<close>

theorem mandelbrot_origin_inside:
  "mandelbrot 0 0 maxIter = 0"
  by (simp add: mandelbrot_def mandelbrot_loop_origin smooth_count_def)

lemma shifted_square_bound:
  fixes u v cx cy :: real
  assumes "u * u + v * v \<le> 16" and "cx * cx + cy * cy \<le> 4"
  shows "(u + cx) * (u + cx) + (v + cy) * (v + cy) \<le> 36"
proof -
  have "0 \<le> (u - 2 * cx) * (u - 2 * cx)" and "0 \<le> (v - 2 * cy) * (v - 2 * cy)"
    by simp_all
  then show ?thesis
    using assms by (simp add: algebra_simps)
qed

lemma squared_modulus_bound:
  fixes x y :: real
  assumes "x * x + y * y \<le> 4"
  shows "(x * x - y * y) * (x * x - y * y) + (2 * x * y) * (2 * x * y) \<le> 16"
proof -
  have "(x * x - y * y) * (x * x - y * y) + (2 * x * y) * (2 * x * y)
        = (x * x + y * y) * (x * x + y * y)"
    by (simp add: algebra_simps)
  also have "\<dots> \<le> 4 * 4"
    using assms by (intro mult_mono) simp_all
  finally show ?thesis by simp
qed

lemma orbit_step_bound:
  fixes x y cx cy :: real
  assumes "x * x + y * y \<le> 4" and "cx * cx + cy * cy \<le> 4"
  shows "(x * x - y * y + cx) * (x * x - y * y + cx) + (2 * x * y + cy) * (2 * x * y + cy) \<le> 36"
  using shifted_square_bound [OF squared_modulus_bound [OF assms(1)] assms(2)] .

lemma orbit_step_bound_abs:
  fixes x y cx cy :: real
  assumes "x * x + y * y \<le> 4" and "cx * cx + cy * cy \<le> 4"
  shows "(x * x - y * y + cx) * (x * x - y * y + cx)
         + (2 * \<bar>x * y\<bar> + cy) * (2 * \<bar>x * y\<bar> + cy) \<le> 36"
proof -
  have "(2 * \<bar>x * y\<bar>) * (2 * \<bar>x * y\<bar>) = (2 * x * y) * (2 * x * y)"
    by (simp add: abs_mult algebra_simps) 
  then have "(x * x - y * y) * (x * x - y * y) + (2 * \<bar>x * y\<bar>) * (2 * \<bar>x * y\<bar>) \<le> 16"
    using squared_modulus_bound [OF assms(1)] by simp
  from shifted_square_bound [OF this assms(2)] show ?thesis .
qed

lemma ln_256: "ln (256::real) = 8 * ln 2"
proof -
  have "ln (256::real) = ln (2 ^ 8)"
    by simp
  also have "\<dots> = real 8 * ln 2"
    by (rule ln_realpow)
  finally show ?thesis by simp
qed

lemma ln_4: "ln (4::real) = 2 * ln 2"
proof -
  have "ln (4::real) = ln (2 ^ 2)"
    by simp
  also have "\<dots> = real 2 * ln 2"
    by (rule ln_realpow)
  finally show ?thesis by simp
qed

lemma nu_at_most_two:
  fixes s :: real
  assumes "4 < s" and "s \<le> 256"
  shows "ln (ln s / 2 / ln 2) / ln 2 \<le> 2"
proof -
  have pos: "0 < ln (2::real)" by simp
  have up: "ln s \<le> 8 * ln 2"
    using assms ln_256 by (metis ln_le_cancel_iff less_trans zero_less_numeral)
  have lo: "2 * ln 2 < ln s"
    using assms ln_4 by (metis ln_less_cancel_iff less_trans zero_less_numeral)
  define t where "t = ln s / 2 / ln 2"
  have "t \<le> 4"
    using up pos by (simp add: t_def field_simps)
  moreover have "1 < t"
    using lo pos by (simp add: t_def field_simps)
  ultimately have "ln t \<le> ln 4"
    by (subst ln_le_cancel_iff) simp_all
  then have "ln t / ln 2 \<le> 2"
    using pos by (simp add: ln_4 field_simps)
  then show ?thesis
    by (simp only: t_def)
qed

lemma smooth_count_nonneg:
  assumes "it \<noteq> m \<Longrightarrow> 4 < a + b \<and> a + b \<le> 256 \<and> 1 \<le> it"
  shows "0 \<le> smooth_count m (a, b, it)"
proof (cases "it = m")
  case True
  then show ?thesis by (simp add: smooth_count_def)
next
  case False
  from assms [OF False] have bounds: "4 < a + b" "a + b \<le> 256" and it: "1 \<le> it"
    by simp_all
  define nu where "nu = ln (ln (a + b) / 2 / ln 2) / ln 2"
  have "nu \<le> 2"
    unfolding nu_def by (rule nu_at_most_two [OF bounds])
  moreover have "smooth_count m (a, b, it) = real it + 1 - nu"
    using False by (simp add: smooth_count_def Let_def nu_def)
  ultimately show ?thesis
    using it by simp
qed

lemma mandelbrot_loop_continue:
  assumes "x2 + y2 \<le> 4 \<and> iter < m"
  shows "mandelbrot_loop cx cy m x y x2 y2 iter =
         mandelbrot_loop cx cy m (x2 - y2 + cx) (2 * x * y + cy)
           ((x2 - y2 + cx) * (x2 - y2 + cx)) ((2 * x * y + cy) * (2 * x * y + cy)) (Suc iter)"
  using assms by (subst mandelbrot_loop.simps) (simp add: Let_def)

lemma mandelbrot_loop_exit:
  assumes "\<not> (x2 + y2 \<le> 4 \<and> iter < m)"
  shows "mandelbrot_loop cx cy m x y x2 y2 iter = (x2, y2, iter)"
  by (subst mandelbrot_loop.simps) (use assms in auto)

lemma mandelbrot_loop_count:
  assumes "mandelbrot_loop cx cy m x y x2 y2 iter = (a, b, it)"
  shows "iter \<le> it \<and> (iter \<le> m \<longrightarrow> it \<le> m)"
  using assms
proof (induction cx cy m x y x2 y2 iter rule: mandelbrot_loop.induct)
  case (1 cx cy m x y x2 y2 iter)
  show ?case
  proof (cases "x2 + y2 \<le> 4 \<and> iter < m")
    case True
    from "1.prems" have "mandelbrot_loop cx cy m (x2 - y2 + cx) (2 * x * y + cy)
           ((x2 - y2 + cx) * (x2 - y2 + cx)) ((2 * x * y + cy) * (2 * x * y + cy)) (Suc iter)
           = (a, b, it)"
      by (simp add: mandelbrot_loop_continue [OF True])
    from "1.IH" [OF True refl refl this] True show ?thesis
      by auto
  next
    case False
    with "1.prems" show ?thesis
      by (simp add: mandelbrot_loop_exit)
  qed
qed

lemma mandelbrot_loop_stable:
  assumes "mandelbrot_loop cx cy m x y x2 y2 iter = (a, b, it)" and "it < m" and "m \<le> m'"
  shows "mandelbrot_loop cx cy m' x y x2 y2 iter = (a, b, it)"
  using assms
proof (induction cx cy m x y x2 y2 iter rule: mandelbrot_loop.induct)
  case (1 cx cy m x y x2 y2 iter)
  show ?case
  proof (cases "x2 + y2 \<le> 4 \<and> iter < m")
    case True
    from "1.prems"(1) have "mandelbrot_loop cx cy m (x2 - y2 + cx) (2 * x * y + cy)
           ((x2 - y2 + cx) * (x2 - y2 + cx)) ((2 * x * y + cy) * (2 * x * y + cy)) (Suc iter)
           = (a, b, it)"
      by (simp add: mandelbrot_loop_continue [OF True])
    from "1.IH" [OF True refl refl this "1.prems"(2,3)]
    have "mandelbrot_loop cx cy m' (x2 - y2 + cx) (2 * x * y + cy)
           ((x2 - y2 + cx) * (x2 - y2 + cx)) ((2 * x * y + cy) * (2 * x * y + cy)) (Suc iter)
           = (a, b, it)" .
    moreover have "x2 + y2 \<le> 4 \<and> iter < m'"
      using True "1.prems"(3) by simp
    ultimately show ?thesis
      by (simp add: mandelbrot_loop_continue)
  next
    case False
    with "1.prems"(1) have res: "a = x2" "b = y2" "it = iter"
      by (simp_all add: mandelbrot_loop_exit)
    with False "1.prems"(2) have "\<not> x2 + y2 \<le> 4"
      by simp
    then show ?thesis
      using res by (simp add: mandelbrot_loop_exit)
  qed
qed

lemma mandelbrot_loop_escape:
  assumes "mandelbrot_loop cx cy m x y x2 y2 iter = (a, b, it)" and "it < m"
    and "x2 = x * x" and "y2 = y * y" and "x2 + y2 \<le> 36" and "cx * cx + cy * cy \<le> 4"
  shows "4 < a + b \<and> a + b \<le> 36"
  using assms
proof (induction cx cy m x y x2 y2 iter rule: mandelbrot_loop.induct)
  case (1 cx cy m x y x2 y2 iter)
  show ?case
  proof (cases "x2 + y2 \<le> 4 \<and> iter < m")
    case True
    from "1.prems"(1) have next_run: "mandelbrot_loop cx cy m (x2 - y2 + cx) (2 * x * y + cy)
           ((x2 - y2 + cx) * (x2 - y2 + cx)) ((2 * x * y + cy) * (2 * x * y + cy)) (Suc iter)
           = (a, b, it)"
      by (simp add: mandelbrot_loop_continue [OF True])
    have "x * x + y * y \<le> 4"
      using True "1.prems"(3,4) by simp
    from orbit_step_bound [OF this "1.prems"(6)]
    have "(x2 - y2 + cx) * (x2 - y2 + cx) + (2 * x * y + cy) * (2 * x * y + cy) \<le> 36"
      using "1.prems"(3,4) by simp
    from "1.IH" [OF True refl refl next_run "1.prems"(2) refl refl this "1.prems"(6)]
    show ?thesis .
  next
    case False
    with "1.prems"(1) have res: "a = x2" "b = y2" "it = iter"
      by (simp_all add: mandelbrot_loop_exit)
    with False "1.prems"(2) have "\<not> x2 + y2 \<le> 4"
      by simp
    then show ?thesis
      using res "1.prems"(5) by simp
  qed
qed

lemma mandelbrot_monotone:
  assumes "2 \<le> m1" and "m1 \<le> m2"
  shows "mandelbrot cx cy m1 \<le> mandelbrot cx cy m2"
proof -
  obtain a1 b1 it1 where r1: "mandelbrot_loop cx cy m1 0 0 0 0 0 = (a1, b1, it1)"
    by (cases "mandelbrot_loop cx cy m1 0 0 0 0 0") auto
  obtain a2 b2 it2 where r2: "mandelbrot_loop cx cy m2 0 0 0 0 0 = (a2, b2, it2)"
    by (cases "mandelbrot_loop cx cy m2 0 0 0 0 0") auto
  have first: "mandelbrot_loop cx cy m 0 0 0 0 0 =
               mandelbrot_loop cx cy m cx cy (cx * cx) (cy * cy) (Suc 0)" if "0 < m" for m
    using that mandelbrot_loop_continue [of 0 0 0 m cx cy 0 0] by simp
  from mandelbrot_loop_count [OF r1] have le1: "it1 \<le> m1" by simp
  show ?thesis
  proof (cases "it1 < m1")
    case True
    from mandelbrot_loop_stable [OF r1 True assms(2)] r2
    have "a2 = a1" "b2 = b1" "it2 = it1" by simp_all
    with True assms(2) r1 r2 show ?thesis
      by (simp add: mandelbrot_def smooth_count_def)
  next
    case False
    with le1 have eq1: "it1 = m1" by simp
    then have zero: "mandelbrot cx cy m1 = 0"
      using r1 by (simp add: mandelbrot_def smooth_count_def)
    have small: "cx * cx + cy * cy \<le> 4"
    proof (rule ccontr)
      assume "\<not> cx * cx + cy * cy \<le> 4"
      then have "mandelbrot_loop cx cy m1 cx cy (cx * cx) (cy * cy) (Suc 0)
                 = (cx * cx, cy * cy, Suc 0)"
        by (simp add: mandelbrot_loop_exit)
      with first [of m1] assms(1) r1 have "it1 = Suc 0" by simp
      with eq1 assms(1) show False by simp
    qed
    have "0 \<le> smooth_count m2 (a2, b2, it2)"
    proof (rule smooth_count_nonneg)
      assume "it2 \<noteq> m2"
      moreover from mandelbrot_loop_count [OF r2] have "it2 \<le> m2" by simp
      ultimately have lt2: "it2 < m2" by simp
      from mandelbrot_loop_escape [OF r2 lt2 _ _ _ small]
      have esc: "4 < a2 + b2 \<and> a2 + b2 \<le> 36" by simp
      have "0 < m2" using assms by simp
      from first [OF this] r2
      have "mandelbrot_loop cx cy m2 cx cy (cx * cx) (cy * cy) (Suc 0) = (a2, b2, it2)"
        by simp
      from mandelbrot_loop_count [OF this] have "1 \<le> it2" by simp
      with esc show "4 < a2 + b2 \<and> a2 + b2 \<le> 256 \<and> 1 \<le> it2" by simp
    qed
    with zero r2 show ?thesis
      by (simp add: mandelbrot_def)
  qed
qed

lemma julia_loop_continue:
  assumes "x2 + y2 \<le> 4 \<and> iter < m"
  shows "julia_loop cx cy m x y x2 y2 iter =
         julia_loop cx cy m (x2 - y2 + cx) (2 * x * y + cy)
           ((x2 - y2 + cx) * (x2 - y2 + cx)) ((2 * x * y + cy) * (2 * x * y + cy)) (Suc iter)"
  using assms by (subst julia_loop.simps) (simp add: Let_def)

lemma julia_loop_exit:
  assumes "\<not> (x2 + y2 \<le> 4 \<and> iter < m)"
  shows "julia_loop cx cy m x y x2 y2 iter = (x2, y2, iter)"
  by (subst julia_loop.simps) (use assms in auto)

lemma julia_loop_count:
  assumes "julia_loop cx cy m x y x2 y2 iter = (a, b, it)"
  shows "iter \<le> it \<and> (iter \<le> m \<longrightarrow> it \<le> m)"
  using assms
proof (induction cx cy m x y x2 y2 iter rule: julia_loop.induct)
  case (1 cx cy m x y x2 y2 iter)
  show ?case
  proof (cases "x2 + y2 \<le> 4 \<and> iter < m")
    case True
    from "1.prems" have "julia_loop cx cy m (x2 - y2 + cx) (2 * x * y + cy)
           ((x2 - y2 + cx) * (x2 - y2 + cx)) ((2 * x * y + cy) * (2 * x * y + cy)) (Suc iter)
           = (a, b, it)"
      by (simp add: julia_loop_continue [OF True])
    from "1.IH" [OF True refl refl this] True show ?thesis
      by auto
  next
    case False
    with "1.prems" show ?thesis
      by (simp add: julia_loop_exit)
  qed
qed

lemma julia_loop_stable:
  assumes "julia_loop cx cy m x y x2 y2 iter = (a, b, it)" and "it < m" and "m \<le> m'"
  shows "julia_loop cx cy m' x y x2 y2 iter = (a, b, it)"
  using assms
proof (induction cx cy m x y x2 y2 iter rule: julia_loop.induct)
  case (1 cx cy m x y x2 y2 iter)
  show ?case
  proof (cases "x2 + y2 \<le> 4 \<and> iter < m")
    case True
    from "1.prems"(1) have "julia_loop cx cy m (x2 - y2 + cx) (2 * x * y + cy)
           ((x2 - y2 + cx) * (x2 - y2 + cx)) ((2 * x * y + cy) * (2 * x * y + cy)) (Suc iter)
           = (a, b, it)"
      by (simp add: julia_loop_continue [OF True])
    from "1.IH" [OF True refl refl this "1.prems"(2,3)]
    have "julia_loop cx cy m' (x2 - y2 + cx) (2 * x * y + cy)
           ((x2 - y2 + cx) * (x2 - y2 + cx)) ((2 * x * y + cy) * (2 * x * y + cy)) (Suc iter)
           = (a, b, it)" .
    moreover have "x2 + y2 \<le> 4 \<and> iter < m'"
      using True "1.prems"(3) by simp
    ultimately show ?thesis
      by (simp add: julia_loop_continue)
  next
    case False
    with "1.prems"(1) have res: "a = x2" "b = y2" "it = iter"
      by (simp_all add: julia_loop_exit)
    with False "1.prems"(2) have "\<not> x2 + y2 \<le> 4"
      by simp
    then show ?thesis
      using res by (simp add: julia_loop_exit)
  qed
qed

lemma julia_loop_escape:
  assumes "julia_loop cx cy m x y x2 y2 iter = (a, b, it)" and "it < m"
    and "x2 = x * x" and "y2 = y * y" and "x2 + y2 \<le> 36" and "cx * cx + cy * cy \<le> 4"
  shows "4 < a + b \<and> a + b \<le> 36"
  using assms
proof (induction cx cy m x y x2 y2 iter rule: julia_loop.induct)
  case (1 cx cy m x y x2 y2 iter)
  show ?case
  proof (cases "x2 + y2 \<le> 4 \<and> iter < m")
    case True
    from "1.prems"(1) have next_run: "julia_loop cx cy m (x2 - y2 + cx) (2 * x * y + cy)
           ((x2 - y2 + cx) * (x2 - y2 + cx)) ((2 * x * y + cy) * (2 * x * y + cy)) (Suc iter)
           = (a, b, it)"
      by (simp add: julia_loop_continue [OF True])
    have "x * x + y * y \<le> 4"
      using True "1.prems"(3,4) by simp
    from orbit_step_bound [OF this "1.prems"(6)]
    have "(x2 - y2 + cx) * (x2 - y2 + cx) + (2 * x * y + cy) * (2 * x * y + cy) \<le> 36"
      using "1.prems"(3,4) by simp
    from "1.IH" [OF True refl refl next_run "1.prems"(2) refl refl this "1.prems"(6)]
    show ?thesis .
  next
    case False
    with "1.prems"(1) have res: "a = x2" "b = y2" "it = iter"
      by (simp_all add: julia_loop_exit)
    with False "1.prems"(2) have "\<not> x2 + y2 \<le> 4"
      by simp
    then show ?thesis
      using res "1.prems"(5) by simp
  qed
qed

lemma julia_monotone:
  assumes "2 \<le> m1" and "m1 \<le> m2" and small: "fst c * fst c + snd c * snd c \<le> 4"
  shows "julia px py m1 c \<le> julia px py m2 c"
proof -
  obtain a1 b1 it1
    where r1: "julia_loop (fst c) (snd c) m1 px py (px * px) (py * py) 0 = (a1, b1, it1)"
    by (cases "julia_loop (fst c) (snd c) m1 px py (px * px) (py * py) 0") auto
  obtain a2 b2 it2
    where r2: "julia_loop (fst c) (snd c) m2 px py (px * px) (py * py) 0 = (a2, b2, it2)"
    by (cases "julia_loop (fst c) (snd c) m2 px py (px * px) (py * py) 0") auto
  from julia_loop_count [OF r1] have le1: "it1 \<le> m1" by simp
  show ?thesis
  proof (cases "it1 < m1")
    case True
    from julia_loop_stable [OF r1 True assms(2)] r2
    have "a2 = a1" "b2 = b1" "it2 = it1" by simp_all
    with True assms(2) r1 r2 show ?thesis
      by (simp add: julia_def smooth_count_def)
  next
    case False
    with le1 have eq1: "it1 = m1" by simp
    then have zero: "julia px py m1 c = 0"
      using r1 by (simp add: julia_def smooth_count_def)
    have inside: "px * px + py * py \<le> 4"
    proof (rule ccontr)
      assume "\<not> px * px + py * py \<le> 4"
      then have "julia_loop (fst c) (snd c) m1 px py (px * px) (py * py) 0
                 = (px * px, py * py, 0)"
        by (simp add: julia_loop_exit)
      with r1 have "it1 = 0" by simp
      with eq1 assms(1) show False by simp
    qed
    have "0 \<le> smooth_count m2 (a2, b2, it2)"
    proof (rule smooth_count_nonneg)
      assume "it2 \<noteq> m2"
      moreover from julia_loop_count [OF r2] have "it2 \<le> m2" by simp
      ultimately have lt2: "it2 < m2" by simp
      have "px * px + py * py \<le> 36"
        using inside by simp
      from julia_loop_escape [OF r2 lt2 refl refl this small]
      have esc: "4 < a2 + b2 \<and> a2 + b2 \<le> 36" .
      have "px * px + py * py \<le> 4 \<and> 0 < m2"
        using inside assms by simp
      from julia_loop_continue [OF this] r2
      have "julia_loop (fst c) (snd c) m2 (px * px - py * py + fst c) (2 * px * py + snd c)
              ((px * px - py * py + fst c) * (px * px - py * py + fst c))
              ((2 * px * py + snd c) * (2 * px * py + snd c)) (Suc 0) = (a2, b2, it2)"
        by simp
      from julia_loop_count [OF this] have "1 \<le> it2" by simp
      with esc show "4 < a2 + b2 \<and> a2 + b2 \<le> 256 \<and> 1 \<le> it2" by simp
    qed
    with zero r2 show ?thesis
      by (simp add: julia_def)
  qed
qed

lemma juliaC_default_small:
  "fst juliaC_default * fst juliaC_default + snd juliaC_default * snd juliaC_default \<le> 4"
  by (simp add: juliaC_default_def)

lemma burning_ship_loop_continue:
  assumes "x2 + y2 \<le> 4 \<and> iter < m"
  shows "burning_ship_loop cx cy m x y x2 y2 iter =
         burning_ship_loop cx cy m (x2 - y2 + cx) (2 * \<bar>x * y\<bar> + cy)
           ((x2 - y2 + cx) * (x2 - y2 + cx)) ((2 * \<bar>x * y\<bar> + cy) * (2 * \<bar>x * y\<bar> + cy)) (Suc iter)"
  using assms by (subst burning_ship_loop.simps) (simp add: Let_def)

lemma burning_ship_loop_exit:
  assumes "\<not> (x2 + y2 \<le> 4 \<and> iter < m)"
  shows "burning_ship_loop cx cy m x y x2 y2 iter = (x2, y2, iter)"
  by (subst burning_ship_loop.simps) (use assms in auto)

lemma burning_ship_loop_count:
  assumes "burning_ship_loop cx cy m x y x2 y2 iter = (a, b, it)"
  shows "iter \<le> it \<and> (iter \<le> m \<longrightarrow> it \<le> m)"
  using assms
proof (induction cx cy m x y x2 y2 iter rule: burning_ship_loop.induct)
  case (1 cx cy m x y x2 y2 iter)
  show ?case
  proof (cases "x2 + y2 \<le> 4 \<and> iter < m")
    case True
    from "1.prems" have "burning_ship_loop cx cy m (x2 - y2 + cx) (2 * \<bar>x * y\<bar> + cy)
           ((x2 - y2 + cx) * (x2 - y2 + cx)) ((2 * \<bar>x * y\<bar> + cy) * (2 * \<bar>x * y\<bar> + cy)) (Suc iter)
           = (a, b, it)"
      by (simp add: burning_ship_loop_continue [OF True])
    from "1.IH" [OF True refl refl this] True show ?thesis
      by auto
  next
    case False
    with "1.prems" show ?thesis
      by (simp add: burning_ship_loop_exit)
  qed
qed

lemma burning_ship_loop_stable:
  assumes "burning_ship_loop cx cy m x y x2 y2 iter = (a, b, it)" and "it < m" and "m \<le> m'"
  shows "burning_ship_loop cx cy m' x y x2 y2 iter = (a, b, it)"
  using assms
proof (induction cx cy m x y x2 y2 iter rule: burning_ship_loop.induct)
  case (1 cx cy m x y x2 y2 iter)
  show ?case
  proof (cases "x2 + y2 \<le> 4 \<and> iter < m")
    case True
    from "1.prems"(1) have "burning_ship_loop cx cy m (x2 - y2 + cx) (2 * \<bar>x * y\<bar> + cy)
           ((x2 - y2 + cx) * (x2 - y2 + cx)) ((2 * \<bar>x * y\<bar> + cy) * (2 * \<bar>x * y\<bar> + cy)) (Suc iter)
           = (a, b, it)"
      by (simp add: burning_ship_loop_continue [OF True])
    from "1.IH" [OF True refl refl this "1.prems"(2,3)]
    have "burning_ship_loop cx cy m' (x2 - y2 + cx) (2 * \<bar>x * y\<bar> + cy)
           ((x2 - y2 + cx) * (x2 - y2 + cx)) ((2 * \<bar>x * y\<bar> + cy) * (2 * \<bar>x * y\<bar> + cy)) (Suc iter)
           = (a, b, it)" .
    moreover have "x2 + y2 \<le> 4 \<and> iter < m'"
      using True "1.prems"(3) by simp
    ultimately show ?thesis
      by (simp add: burning_ship_loop_continue)
  next
    case False
    with "1.prems"(1) have res: "a = x2" "b = y2" "it = iter"
      by (simp_all add: burning_ship_loop_exit)
    with False "1.prems"(2) have "\<not> x2 + y2 \<le> 4"
      by simp
    then show ?thesis
      using res by (simp add: burning_ship_loop_exit)
  qed
qed

lemma burning_ship_loop_escape:
  assumes "burning_ship_loop cx cy m x y x2 y2 iter = (a, b, it)" and "it < m"
    and "x2 = x * x" and "y2 = y * y" and "x2 + y2 \<le> 36" and "cx * cx + cy * cy \<le> 4"
  shows "4 < a + b \<and> a + b \<le> 36"
  using assms
proof (induction cx cy m x y x2 y2 iter rule: burning_ship_loop.induct)
  case (1 cx cy m x y x2 y2 iter)
  show ?case
  proof (cases "x2 + y2 \<le> 4 \<and> iter < m")
    case True
    from "1.prems"(1) have next_run: "burning_ship_loop cx cy m (x2 - y2 + cx) (2 * \<bar>x * y\<bar> + cy)
           ((x2 - y2 + cx) * (x2 - y2 + cx)) ((2 * \<bar>x * y\<bar> + cy) * (2 * \<bar>x * y\<bar> + cy)) (Suc iter)
           = (a, b, it)"
      by (simp add: burning_ship_loop_continue [OF True])
    have "x * x + y * y \<le> 4"
      using True "1.prems"(3,4) by simp
    from orbit_step_bound_abs [OF this "1.prems"(6)]
    have "(x2 - y2 + cx) * (x2 - y2 + cx) + (2 * \<bar>x * y\<bar> + cy) * (2 * \<bar>x * y\<bar> + cy) \<le> 36"
      using "1.prems"(3,4) by simp
    from "1.IH" [OF True refl refl next_run "1.prems"(2) refl refl this "1.prems"(6)]
    show ?thesis .
  next
    case False
    with "1.prems"(1) have res: "a = x2" "b = y2" "it = iter"
      by (simp_all add: burning_ship_loop_exit)
    with False "1.prems"(2) have "\<not> x2 + y2 \<le> 4"
      by simp
    then show ?thesis
      using res "1.prems"(5) by simp
  qed
qed

lemma burning_ship_monotone:
  assumes "2 \<le> m1" and "m1 \<le> m2"
  shows "burning_ship cx cy m1 \<le> burning_ship cx cy m2"
proof -
  obtain a1 b1 it1 where r1: "burning_ship_loop cx cy m1 0 0 0 0 0 = (a1, b1, it1)"
    by (cases "burning_ship_loop cx cy m1 0 0 0 0 0") auto
  obtain a2 b2 it2 where r2: "burning_ship_loop cx cy m2 0 0 0 0 0 = (a2, b2, it2)"
    by (cases "burning_ship_loop cx cy m2 0 0 0 0 0") auto
  have first: "burning_ship_loop cx cy m 0 0 0 0 0 =
               burning_ship_loop cx cy m cx cy (cx * cx) (cy * cy) (Suc 0)" if "0 < m" for m
    using that burning_ship_loop_continue [of 0 0 0 m cx cy 0 0] by simp
  from burning_ship_loop_count [OF r1] have le1: "it1 \<le> m1" by simp
  show ?thesis
  proof (cases "it1 < m1")
    case True
    from burning_ship_loop_stable [OF r1 True assms(2)] r2
    have "a2 = a1" "b2 = b1" "it2 = it1" by simp_all
    with True assms(2) r1 r2 show ?thesis
      by (simp add: burning_ship_def smooth_count_def)
  next
    case False
    with le1 have eq1: "it1 = m1" by simp
    then have zero: "burning_ship cx cy m1 = 0"
      using r1 by (simp add: burning_ship_def smooth_count_def)
    have small: "cx * cx + cy * cy \<le> 4"
    proof (rule ccontr)
      assume "\<not> cx * cx + cy * cy \<le> 4"
      then have "burning_ship_loop cx cy m1 cx cy (cx * cx) (cy * cy) (Suc 0)
                 = (cx * cx, cy * cy, Suc 0)"
        by (simp add: burning_ship_loop_exit)
      with first [of m1] assms(1) r1 have "it1 = Suc 0" by simp
      with eq1 assms(1) show False by simp
    qed
    have "0 \<le> smooth_count m2 (a2, b2, it2)"
    proof (rule smooth_count_nonneg)
      assume "it2 \<noteq> m2"
      moreover from burning_ship_loop_count [OF r2] have "it2 \<le> m2" by simp
      ultimately have lt2: "it2 < m2" by simp
      from burning_ship_loop_escape [OF r2 lt2 _ _ _ small]
      have esc: "4 < a2 + b2 \<and> a2 + b2 \<le> 36" by simp
      have "0 < m2" using assms by simp
      from first [OF this] r2
      have "burning_ship_loop cx cy m2 cx cy (cx * cx) (cy * cy) (Suc 0) = (a2, b2, it2)"
        by simp
      from burning_ship_loop_count [OF this] have "1 \<le> it2" by simp
      with esc show "4 < a2 + b2 \<and> a2 + b2 \<le> 256 \<and> 1 \<le> it2" by simp
    qed
    with zero r2 show ?thesis
      by (simp add: burning_ship_def)
  qed
qed

lemma mandelbrot_far_point_1: "mandelbrot 256 0 1 = 0"
proof -
  have "mandelbrot_loop 256 0 1 0 0 0 0 0 = mandelbrot_loop 256 0 1 256 0 65536 0 (Suc 0)"
    using mandelbrot_loop_continue [of 0 0 0 1 256 0 0 0] by simp
  also have "\<dots> = (65536, 0, Suc 0)"
    by (simp add: mandelbrot_loop_exit)
  finally show ?thesis
    by (simp add: mandelbrot_def smooth_count_def)
qed

lemma ln_65536: "ln (65536::real) = 16 * ln 2"
proof -
  have "ln (65536::real) = ln (2 ^ 16)"
    by simp
  also have "\<dots> = real 16 * ln 2"
    by (rule ln_realpow)
  finally show ?thesis by simp
qed

lemma ln_8: "ln (8::real) = 3 * ln 2"
proof -
  have "ln (8::real) = ln (2 ^ 3)"
    by simp
  also have "\<dots> = real 3 * ln 2"
    by (rule ln_realpow)
  finally show ?thesis by simp
qed

lemma mandelbrot_far_point_2: "mandelbrot 256 0 2 = - 1"
proof -
  have "mandelbrot_loop 256 0 2 0 0 0 0 0 = mandelbrot_loop 256 0 2 256 0 65536 0 (Suc 0)"
    using mandelbrot_loop_continue [of 0 0 0 2 256 0 0 0] by simp
  also have "\<dots> = (65536, 0, Suc 0)"
    by (simp add: mandelbrot_loop_exit)
  finally have "mandelbrot 256 0 2 = 2 - ln (ln 65536 / 2 / ln 2) / ln 2"
    by (simp add: mandelbrot_def smooth_count_def Let_def)
  also have "ln (65536::real) / 2 / ln 2 = 8"
    by (simp add: ln_65536)
  also have "2 - ln (8::real) / ln 2 = - 1"
    by (simp add: ln_8)
  finally show ?thesis .
qed

text \<open>
  C8 says that for an escaping point the returned count never decreases as
  \<open>maxIterations\<close> increases. A run that reaches the cap returns 0 also when
  the point escapes at that very iteration, and the smoothed count of a point
  far from the origin is negative: the point (256, 0) escapes at the first
  iteration with \<open>|z|\<^sup>2 = 2\<^sup>1\<^sup>6\<close>, so that \<open>nu = 3\<close>. With \<open>maxIter = 1\<close>
  the result is 0, with \<open>maxIter = 2\<close> it is \<open>1 + 1 - 3\<close>.
\<close>

theorem escape_count_decreases_counterexample:
  "mandelbrot 256 0 1 = 0 \<and> mandelbrot 256 0 2 = - 1 \<and>
   \<not> mandelbrot 256 0 1 \<le> mandelbrot 256 0 2"
  using mandelbrot_far_point_1 mandelbrot_far_point_2 by simp

text \<open>
  C8, amended. For each of the three families and every point, the result with
  \<open>maxIter1\<close> is at most the result with \<open>maxIter2\<close> whenever
  \<open>2 \<le> maxIter1 \<le> maxIter2\<close> (for \<open>julia\<close>, with the constant
  \<open>(-0.7, 0.27015)\<close> that \<open>render\<close> uses): a run that ends below the cap returns
  the same count under every larger cap, and a run that reaches a cap of at
  least 2 starts within \<open>|z|\<^sup>2 \<le> 4\<close>, so that it escapes with
  \<open>|z|\<^sup>2 \<le> 36\<close> and a count that is not negative.
\<close>

theorem escape_count_monotone:
  assumes "2 \<le> maxIter1" and "maxIter1 \<le> maxIter2"
  shows "mandelbrot cx cy maxIter1 \<le> mandelbrot cx cy maxIter2 \<and>
         julia cx cy maxIter1 juliaC_default \<le> julia cx cy maxIter2 juliaC_default \<and>
         burning_ship cx cy maxIter1 \<le> burning_ship cx cy maxIter2"
  using mandelbrot_monotone [OF assms] julia_monotone [OF assms juliaC_default_small]
    burning_ship_monotone [OF assms]
  by simp

theorem escape_count_monotone_witness:
  "(2::nat) \<le> 2 \<and> (2::nat) \<le> 3 \<and>
   mandelbrot 1 1 2 \<le> mandelbrot 1 1 3 \<and>
   julia 1 1 2 juliaC_default \<le> julia 1 1 3 juliaC_default \<and>
   burning_ship 1 1 2 \<le> burning_ship 1 1 3"
  using escape_count_monotone [of 2 3 1 1] by simp

end
